theory Spec2Isabelle
  imports Main
begin

section \<open>Conventions of the embedding\<close>

text \<open>
  The functions of \<^verbatim>\<open>graph.py\<close>, \<^verbatim>\<open>nodes/supervisor.py\<close> and \<^verbatim>\<open>nodes/fetch.py\<close> are
  embedded as HOL functions over a record of the Shared State.

  \<^item> A Python \<^verbatim>\<open>str\<close> is modelled by its UTF-8 encoding, a \<open>string\<close> of 8-bit characters.
    The encoding is injective and commutes with concatenation, so \<^verbatim>\<open>==\<close>, \<^verbatim>\<open>!=\<close>,
    membership in a tuple of literals and f-string concatenation are the same on both
    sides. A non-ASCII literal of the source is written as its bytes, with an English
    gloss in the comment beside it.
  \<^item> A Python \<^verbatim>\<open>int\<close> is an \<open>int\<close>.
  \<^item> A raised exception is the \<open>Inl\<close> of a sum type.
  \<^item> A node returns a dict of the keys it writes; it is modelled as the list of these
    writes, and \<open>merge\<close> applies them to the state the way the graph engine does
    (last write wins, \<^verbatim>\<open>messages\<close> appended).
  \<^item> A leading underscore of a source name is dropped (\<^verbatim>\<open>_route_from_supervisor\<close> is
    \<open>route_from_supervisor\<close>).
\<close>

datatype pyerr =
    IndexError
  | FileNotFoundError string
  | ValueError string
  | JSONDecodeError string
  | AttributeError string
  | TypeError string
  | KeyError string
  | OtherException string

text \<open>
  \<^verbatim>\<open>str(e)\<close>. A constructor stands for the exception class and carries the text of the
  exception; the \<open>IndexError\<close> of a list read has Python's fixed text. \<open>ValueError\<close> is
  a \<^verbatim>\<open>ValueError\<close> that is no \<^verbatim>\<open>JSONDecodeError\<close>; \<^verbatim>\<open>json.JSONDecodeError\<close> is a subclass of
  it, so a clause that catches \<^verbatim>\<open>ValueError\<close> catches both. \<open>OtherException\<close> is any
  other class (\<^verbatim>\<open>RecursionError\<close>, an HTTP error, ...).
\<close>

fun str_of_err :: "pyerr \<Rightarrow> string" where
  "str_of_err IndexError = ''list index out of range''"
| "str_of_err (FileNotFoundError m) = m"
| "str_of_err (ValueError m) = m"
| "str_of_err (JSONDecodeError m) = m"
| "str_of_err (AttributeError m) = m"
| "str_of_err (TypeError m) = m"
| "str_of_err (KeyError m) = m"
| "str_of_err (OtherException m) = m"

text \<open>Python's \<^verbatim>\<open>xs[i]\<close>: a negative index counts from the end, an index out of range raises.\<close>

definition py_index :: "'a list \<Rightarrow> int \<Rightarrow> pyerr + 'a" where
  "py_index xs i =
     (if 0 \<le> i \<and> i < int (length xs) then Inr (xs ! nat i)
      else if i < 0 \<and> - int (length xs) \<le> i then Inr (xs ! nat (int (length xs) + i))
      else Inl IndexError)"

text \<open>\<^verbatim>\<open>d.get(k, k)\<close> on a dict literal, \<^verbatim>\<open>sep.join(xs)\<close> and \<^verbatim>\<open>str(n)\<close> for \<open>n \<ge> 0\<close>.\<close>

definition get_or_key :: "(string \<times> string) list \<Rightarrow> string \<Rightarrow> string" where
  "get_or_key d k = (case map_of d k of None \<Rightarrow> k | Some v \<Rightarrow> v)"

fun join :: "string \<Rightarrow> string list \<Rightarrow> string" where
  "join sep [] = []"
| "join sep [x] = x"
| "join sep (x # y # ys) = x @ sep @ join sep (y # ys)"

fun str_nat :: "nat \<Rightarrow> string" where
  "str_nat n =
     (if n < 10 then [''0123456789'' ! n]
      else str_nat (n div 10) @ [''0123456789'' ! (n mod 10)])"

declare str_nat.simps [simp del]

text \<open>\<^verbatim>\<open>pattern in text\<close> on strings: the pattern occurs somewhere in the text.\<close>

fun starts_with :: "string \<Rightarrow> string \<Rightarrow> bool" where
  "starts_with s [] = True"
| "starts_with [] (p # ps) = False"
| "starts_with (c # cs) (p # ps) = (c = p \<and> starts_with cs ps)"

fun occurs_in :: "string \<Rightarrow> string \<Rightarrow> bool" where
  "occurs_in p [] = (p = [])"
| "occurs_in p (c # cs) = (starts_with (c # cs) p \<or> occurs_in p cs)"

text \<open>
  The texts of the exceptions Python raises for a missing method and for a membership
  test on a value that is no container, with the type's name in single quotes.
\<close>

definition quoted :: "string \<Rightarrow> string" where
  "quoted name = [CHR 0x27] @ name @ [CHR 0x27]"

definition no_attribute :: "string \<Rightarrow> string \<Rightarrow> pyerr" where
  "no_attribute tn attr =
     AttributeError (quoted tn @ '' object has no attribute '' @ quoted attr)"

definition not_iterable :: "string \<Rightarrow> pyerr" where
  "not_iterable tn =
     TypeError (''argument of type '' @ quoted tn @ '' is not iterable'')"

section \<open>The Shared State (\<^verbatim>\<open>state.py\<close>)\<close>

text \<open>
  \<^verbatim>\<open>query_context\<close> is the dict the intent prompt asks for, with its values typed as
  the prompt says. Each field holds what \<^verbatim>\<open>.get(key)\<close> gives (\<open>None\<close> for \<^verbatim>\<open>null\<close> or a
  missing key, \<open>False\<close> for a missing flag); \<^verbatim>\<open>clarification_question\<close> is read with a
  default, so there the outer \<open>None\<close> is the missing key and \<open>Some None\<close> is \<^verbatim>\<open>null\<close>.
  The dict is taken to have at least one key: it is truthy, and \<^verbatim>\<open>not query_context\<close>
  holds exactly when the state field is \<open>None\<close>.
\<close>

record query_ctx =
  intent :: string
  time_range :: "string option"
  chart_types :: "string list"
  needs_clarification :: bool
  clarification_question :: "string option option"

text \<open>
  A row of the sheet is a dict from column names to cells. The reader returns text
  cells; a frame built from rows with different keys fills the gaps with NaN.
\<close>

datatype cell = Text string | NaN

type_synonym row = "(string \<times> cell) list"

datatype message = AIMessage string | HumanMessage string

text \<open>
  Each field holds what \<^verbatim>\<open>state.get(key)\<close> gives: \<open>None\<close> for a key that is missing or
  \<^verbatim>\<open>None\<close>, and the default that every reader of the source passes for \<^verbatim>\<open>plan_approved\<close>
  (\<^verbatim>\<open>False\<close>), \<^verbatim>\<open>awaiting_human\<close> (\<^verbatim>\<open>False\<close>) and \<^verbatim>\<open>current_step\<close> (\<^verbatim>\<open>0\<close>) when the key is
  missing. The analysis artefacts written by the other six workers are read by none of
  the functions below and are left out.
\<close>

record state =
  messages :: "message list"
  user_input :: string
  plan :: "string list option"
  plan_approved :: bool
  current_step :: int
  awaiting_human :: bool
  interrupt_message :: "string option"
  sheet_url :: "string option"
  raw_data :: "row list option"
  dataframe_summary :: "string option"
  query_context :: "query_ctx option"

text \<open>One key of a returned dict, with its value.\<close>

datatype assignment =
    Set_messages "message list"
  | Set_user_input string
  | Set_plan "string list option"
  | Set_plan_approved bool
  | Set_current_step int
  | Set_awaiting_human bool
  | Set_interrupt_message string
  | Set_raw_data "row list option"
  | Set_dataframe_summary "string option"
  | Set_query_context "query_ctx option"

type_synonym update = "assignment list"

text \<open>
  The engine's merge of a node's dict into the state: \<^verbatim>\<open>messages\<close> has the
  \<^verbatim>\<open>add_messages\<close> reducer (the new entries are appended), every other key is replaced.
\<close>

fun assign :: "state \<Rightarrow> assignment \<Rightarrow> state" where
  "assign s (Set_messages ms) = s\<lparr>messages := messages s @ ms\<rparr>"
| "assign s (Set_user_input v) = s\<lparr>user_input := v\<rparr>"
| "assign s (Set_plan v) = s\<lparr>plan := v\<rparr>"
| "assign s (Set_plan_approved v) = s\<lparr>plan_approved := v\<rparr>"
| "assign s (Set_current_step v) = s\<lparr>current_step := v\<rparr>"
| "assign s (Set_awaiting_human v) = s\<lparr>awaiting_human := v\<rparr>"
| "assign s (Set_interrupt_message v) = s\<lparr>interrupt_message := Some v\<rparr>"
| "assign s (Set_raw_data v) = s\<lparr>raw_data := v\<rparr>"
| "assign s (Set_dataframe_summary v) = s\<lparr>dataframe_summary := v\<rparr>"
| "assign s (Set_query_context v) = s\<lparr>query_context := v\<rparr>"

definition merge :: "state \<Rightarrow> update \<Rightarrow> state" where
  "merge s u = foldl assign s u"

text \<open>Truthiness of an optional list (\<^verbatim>\<open>if plan\<close>) and of an optional string.\<close>

fun truthy :: "'a list option \<Rightarrow> bool" where
  "truthy None = False"
| "truthy (Some xs) = (xs \<noteq> [])"

text \<open>The step catalogue, as the keys of \<^verbatim>\<open>node_map\<close>.\<close>

definition catalog :: "string list" where
  "catalog = [''fetch'', ''cluster'', ''knowledge_map'', ''wordcloud'', ''chart'', ''report'',
     ''evaluate'']"

section \<open>Approval Gate and Step Sequencer (\<^verbatim>\<open>graph.py\<close>)\<close>

definition tok_tongyi :: string where \<comment> \<open>agree\<close>
  "tok_tongyi =
     [CHR 0xE5, CHR 0x90, CHR 0x8C, CHR 0xE6, CHR 0x84, CHR 0x8F]"

definition tok_queren :: string where \<comment> \<open>confirm\<close>
  "tok_queren =
     [CHR 0xE7, CHR 0xA2, CHR 0xBA, CHR 0xE8, CHR 0xAA, CHR 0x8D]"

definition tok_jixu :: string where \<comment> \<open>continue\<close>
  "tok_jixu =
     [CHR 0xE7, CHR 0xB9, CHR 0xBC, CHR 0xE7, CHR 0xBA, CHR 0x8C]"

definition tok_hao :: string where \<comment> \<open>good\<close>
  "tok_hao =
     [CHR 0xE5, CHR 0xA5, CHR 0xBD]"

definition tok_shi :: string where \<comment> \<open>yes\<close>
  "tok_shi =
     [CHR 0xE6, CHR 0x98, CHR 0xAF]"

definition default_interrupt_message :: string where \<comment> \<open>Continue?\<close>
  "default_interrupt_message =
     [CHR 0xE6, CHR 0x98, CHR 0xAF, CHR 0xE5, CHR 0x90, CHR 0xA6, CHR 0xE7, CHR 0xB9, CHR 0xBC,
     CHR 0xE7, CHR 0xBA, CHR 0x8C, CHR 0xEF, CHR 0xBC, CHR 0x9F]"

definition approval_tokens :: "string list" where
  "approval_tokens = [''approved'', tok_tongyi, tok_queren, tok_jixu, tok_hao, tok_shi]"

text \<open>The text \<^verbatim>\<open>human_approval_node\<close> hands to \<^verbatim>\<open>interrupt\<close>.\<close>

definition interrupt_prompt :: "state \<Rightarrow> string" where
  "interrupt_prompt s =
     (case interrupt_message s of None \<Rightarrow> default_interrupt_message | Some m \<Rightarrow> m)"

text \<open>
  \<^verbatim>\<open>human_approval_node\<close>, from the point where \<^verbatim>\<open>interrupt\<close> has returned the resume
  value \<open>response\<close> (a string, as the two callers in \<^verbatim>\<open>app.py\<close> pass).
\<close>

definition human_approval_node :: "string \<Rightarrow> state \<Rightarrow> update" where
  "human_approval_node response s =
     (if response \<in> set approval_tokens
      then [Set_plan_approved True, Set_awaiting_human False]
      else [Set_user_input response, Set_plan None, Set_query_context None,
            Set_plan_approved False, Set_awaiting_human False])"

definition step_complete_node :: "state \<Rightarrow> pyerr + update" where
  "step_complete_node s =
     (let plan_v = (case plan s of None \<Rightarrow> [] | Some p \<Rightarrow> p)
      in if plan_v \<noteq> [] \<and> current_step s < int (length plan_v)
         then (case py_index plan_v (current_step s) of
                 Inl e \<Rightarrow> Inl e
               | Inr step \<Rightarrow>
                   if step = ''fetch'' \<and> raw_data s = None
                   then Inr [Set_current_step (int (length plan_v))]
                   else Inr [Set_current_step (current_step s + 1)])
         else Inr [Set_current_step (current_step s + 1)])"

section \<open>Router (\<^verbatim>\<open>graph.py\<close>)\<close>

text \<open>\<^verbatim>\<open>node_map.get(next_step, "supervisor")\<close>: the seven keys map to themselves.\<close>

definition node_map_get :: "string \<Rightarrow> string" where
  "node_map_get next_step = (if next_step \<in> set catalog then next_step else ''supervisor'')"

definition route_from_supervisor :: "state \<Rightarrow> pyerr + string" where
  "route_from_supervisor s =
     (if awaiting_human s then Inr ''human_approval''
      else if truthy (plan s) \<and> \<not> plan_approved s then Inr ''human_approval''
      else if truthy (plan s) \<and> plan_approved s
              \<and> current_step s \<ge> int (length (the (plan s)))
        then Inr ''human_approval''
      else if truthy (plan s) \<and> plan_approved s
              \<and> current_step s < int (length (the (plan s)))
        then (case py_index (the (plan s)) (current_step s) of
                Inl e \<Rightarrow> Inl e
              | Inr next_step \<Rightarrow> Inr (node_map_get next_step))
      else Inr ''human_approval'')"

text \<open>
  The keys of the path map that \<^verbatim>\<open>build_graph\<close> gives to the conditional edge out of
  \<^verbatim>\<open>supervisor\<close>: the names this edge can lead to.
\<close>

definition supervisor_path_map :: "string list" where
  "supervisor_path_map =
     [''human_approval'', ''fetch'', ''cluster'', ''knowledge_map'', ''wordcloud'', ''chart'',
      ''report'', ''evaluate'']"

definition route_from_human :: "state \<Rightarrow> string" where
  "route_from_human s =
     (if \<not> plan_approved s \<or> \<not> truthy (plan s) then ''supervisor'' else ''supervisor'')"

definition route_after_step :: "state \<Rightarrow> string" where
  "route_after_step s = ''supervisor''"

section \<open>Plan Synthesizer (\<^verbatim>\<open>nodes/supervisor.py\<close>)\<close>

text \<open>
  \<^verbatim>\<open>llm.invoke\<close> followed by \<^verbatim>\<open>_parse_json_response\<close> is the chat model and \<^verbatim>\<open>json.loads\<close>:
  both are outside the repository, so their joint outcome is a parameter. It is an
  exception (\<open>Inl\<close>: the \<^verbatim>\<open>JSONDecodeError\<close> of a text that is no JSON, but also the plain
  \<^verbatim>\<open>ValueError\<close> of an integer literal beyond the digit limit, the \<^verbatim>\<open>RecursionError\<close> of
  a deep nesting, a failure of the client), or the decoded JSON value: an object, or a
  value of another type (\<^verbatim>\<open>null\<close>, a boolean, a number, a string, an array).
\<close>

datatype pytype = Py_None | Py_bool | Py_int | Py_float | Py_str | Py_list

fun type_name :: "pytype \<Rightarrow> string" where
  "type_name Py_None = ''NoneType''"
| "type_name Py_bool = ''bool''"
| "type_name Py_int = ''int''"
| "type_name Py_float = ''float''"
| "type_name Py_str = ''str''"
| "type_name Py_list = ''list''"

datatype 'a decoded = Object 'a | Non_object pytype

text \<open>
  What the \<^verbatim>\<open>plan\<close> key of the plan reply holds: an array, whose elements are taken to be
  strings, or \<^verbatim>\<open>null\<close>, a boolean, a number, a string, or an object (given by its keys).
  In \<open>plan_data\<close> the \<open>None\<close> of \<open>plan_key\<close> and of \<open>explanation_key\<close> is the missing key,
  for which \<^verbatim>\<open>plan_data.get\<close> has its defaults; \<open>explanation_key\<close> holds the text the
  f-string prints for the value.
\<close>

datatype plan_value =
    Steps "string list"
  | Plan_null
  | Plan_bool
  | Plan_int
  | Plan_float
  | Plan_text string
  | Plan_keys "string list"

record plan_data =
  plan_key :: "plan_value option"
  explanation_key :: "string option"

record llm =
  invoke_intent :: "string \<Rightarrow> pyerr + query_ctx decoded"
  invoke_plan :: "query_ctx \<Rightarrow> string \<Rightarrow> pyerr + plan_data decoded"

text \<open>\<^verbatim>\<open>except (json.JSONDecodeError, IndexError)\<close>: the two classes both clauses catch.\<close>

fun is_parse_failure :: "pyerr \<Rightarrow> bool" where
  "is_parse_failure (JSONDecodeError m) = True"
| "is_parse_failure IndexError = True"
| "is_parse_failure x = False"

definition thinking_face :: string where \<comment> \<open>thinking face and a space\<close>
  "thinking_face =
     [CHR 0xF0, CHR 0x9F, CHR 0xA4, CHR 0x94] @ '' ''"

definition default_question :: string where \<comment> \<open>What kind of analysis exactly would you like?\<close>
  "default_question =
     [CHR 0xE8, CHR 0xAB, CHR 0x8B, CHR 0xE5, CHR 0x95, CHR 0x8F, CHR 0xE6, CHR 0x82, CHR 0xA8,
     CHR 0xE5, CHR 0x85, CHR 0xB7, CHR 0xE9, CHR 0xAB, CHR 0x94, CHR 0xE6, CHR 0x83, CHR 0xB3,
     CHR 0xE8, CHR 0xA6, CHR 0x81, CHR 0xE4, CHR 0xBB, CHR 0x80, CHR 0xE9, CHR 0xBA, CHR 0xBC,
     CHR 0xE6, CHR 0xA8, CHR 0xA3, CHR 0xE7, CHR 0x9A, CHR 0x84, CHR 0xE5, CHR 0x88, CHR 0x86,
     CHR 0xE6, CHR 0x9E, CHR 0x90, CHR 0xEF, CHR 0xBC, CHR 0x9F]"

definition fallback_explanation :: string where \<comment> \<open>The full analysis flow will be run\<close>
  "fallback_explanation =
     [CHR 0xE5, CHR 0xB0, CHR 0x87, CHR 0xE5, CHR 0x9F, CHR 0xB7, CHR 0xE8, CHR 0xA1, CHR 0x8C,
     CHR 0xE5, CHR 0xAE, CHR 0x8C, CHR 0xE6, CHR 0x95, CHR 0xB4, CHR 0xE5, CHR 0x88, CHR 0x86,
     CHR 0xE6, CHR 0x9E, CHR 0x90, CHR 0xE6, CHR 0xB5, CHR 0x81, CHR 0xE7, CHR 0xA8, CHR 0x8B]"

definition plan_header :: string where \<comment> \<open>clipboard sign, then: Execution plan: and a newline\<close>
  "plan_header =
     [CHR 0xF0, CHR 0x9F, CHR 0x93, CHR 0x8B] @ '' '' @ [CHR 0xE5, CHR 0x9F, CHR 0xB7, CHR 0xE8,
     CHR 0xA1, CHR 0x8C, CHR 0xE8, CHR 0xA8, CHR 0x88, CHR 0xE7, CHR 0x95, CHR 0xAB, CHR 0xEF,
     CHR 0xBC, CHR 0x9A, CHR 0x0A]"

definition plan_question :: string where \<comment> \<open>two newlines, then: Do you agree to start?\<close>
  "plan_question =
     [CHR 0x0A, CHR 0x0A, CHR 0xE6, CHR 0x98, CHR 0xAF, CHR 0xE5, CHR 0x90, CHR 0xA6, CHR 0xE5,
     CHR 0x90, CHR 0x8C, CHR 0xE6, CHR 0x84, CHR 0x8F, CHR 0xE9, CHR 0x96, CHR 0x8B, CHR 0xE5,
     CHR 0xA7, CHR 0x8B, CHR 0xE5, CHR 0x9F, CHR 0xB7, CHR 0xE8, CHR 0xA1, CHR 0x8C, CHR 0xEF,
     CHR 0xBC, CHR 0x9F]"

definition msg_plan_confirmed :: string where \<comment> \<open>check mark, then: Plan confirmed, starting...\<close>
  "msg_plan_confirmed =
     [CHR 0xE2, CHR 0x9C, CHR 0x85] @ '' '' @ [CHR 0xE8, CHR 0xA8, CHR 0x88, CHR 0xE7, CHR 0x95,
     CHR 0xAB, CHR 0xE5, CHR 0xB7, CHR 0xB2, CHR 0xE7, CHR 0xA2, CHR 0xBA, CHR 0xE8, CHR 0xAA,
     CHR 0x8D, CHR 0xEF, CHR 0xBC, CHR 0x8C, CHR 0xE9, CHR 0x96, CHR 0x8B, CHR 0xE5, CHR 0xA7,
     CHR 0x8B, CHR 0xE5, CHR 0x9F, CHR 0xB7, CHR 0xE8, CHR 0xA1, CHR 0x8C] @ ''...''"

definition msg_running :: string where \<comment> \<open>hourglass, then: Now running:\<close>
  "msg_running =
     [CHR 0xE2, CHR 0x8F, CHR 0xB3] @ '' '' @ [CHR 0xE6, CHR 0xAD, CHR 0xA3, CHR 0xE5, CHR 0x9C,
     CHR 0xA8, CHR 0xE5, CHR 0x9F, CHR 0xB7, CHR 0xE8, CHR 0xA1, CHR 0x8C, CHR 0xEF, CHR 0xBC,
     CHR 0x9A]"

definition msg_all_done :: string where \<comment> \<open>check mark, then: All analysis is complete! Does anything need adjusting?\<close>
  "msg_all_done =
     [CHR 0xE2, CHR 0x9C, CHR 0x85] @ '' '' @ [CHR 0xE6, CHR 0x89, CHR 0x80, CHR 0xE6, CHR 0x9C,
     CHR 0x89, CHR 0xE5, CHR 0x88, CHR 0x86, CHR 0xE6, CHR 0x9E, CHR 0x90, CHR 0xE5, CHR 0xB7,
     CHR 0xB2, CHR 0xE5, CHR 0xAE, CHR 0x8C, CHR 0xE6, CHR 0x88, CHR 0x90, CHR 0xEF, CHR 0xBC,
     CHR 0x81, CHR 0xE6, CHR 0x98, CHR 0xAF, CHR 0xE5, CHR 0x90, CHR 0xA6, CHR 0xE9, CHR 0x9C,
     CHR 0x80, CHR 0xE8, CHR 0xA6, CHR 0x81, CHR 0xE8, CHR 0xAA, CHR 0xBF, CHR 0xE6, CHR 0x95,
     CHR 0xB4, CHR 0xE4, CHR 0xBB, CHR 0xBB, CHR 0xE4, CHR 0xBD, CHR 0x95, CHR 0xE9, CHR 0x83,
     CHR 0xA8, CHR 0xE5, CHR 0x88, CHR 0x86, CHR 0xEF, CHR 0xBC, CHR 0x9F]"

definition name_fetch_plan :: string where \<comment> \<open>Read the Google Sheet data\<close>
  "name_fetch_plan =
     [CHR 0xE8, CHR 0xAE, CHR 0x80, CHR 0xE5, CHR 0x8F, CHR 0x96] @ '' Google Sheet ''
     @ [CHR 0xE8, CHR 0xB3, CHR 0x87, CHR 0xE6, CHR 0x96, CHR 0x99]"

definition name_cluster_plan :: string where \<comment> \<open>Run sentiment analysis and opinion clustering\<close>
  "name_cluster_plan =
     [CHR 0xE9, CHR 0x80, CHR 0xB2, CHR 0xE8, CHR 0xA1, CHR 0x8C, CHR 0xE6, CHR 0x83, CHR 0x85,
     CHR 0xE6, CHR 0x84, CHR 0x9F, CHR 0xE5, CHR 0x88, CHR 0x86, CHR 0xE6, CHR 0x9E, CHR 0x90,
     CHR 0xE8, CHR 0x88, CHR 0x87, CHR 0xE6, CHR 0x84, CHR 0x8F, CHR 0xE8, CHR 0xA6, CHR 0x8B,
     CHR 0xE5, CHR 0x88, CHR 0x86, CHR 0xE7, CHR 0xBE, CHR 0xA4]"

definition name_knowledge_map :: string where \<comment> \<open>Generate the Knowledge Map\<close>
  "name_knowledge_map =
     [CHR 0xE7, CHR 0x94, CHR 0x9F, CHR 0xE6, CHR 0x88, CHR 0x90] @ '' Knowledge Map''"

definition name_wordcloud :: string where \<comment> \<open>Generate the word cloud\<close>
  "name_wordcloud =
     [CHR 0xE7, CHR 0x94, CHR 0x9F, CHR 0xE6, CHR 0x88, CHR 0x90, CHR 0xE6, CHR 0x96, CHR 0x87,
     CHR 0xE5, CHR 0xAD, CHR 0x97, CHR 0xE9, CHR 0x9B, CHR 0xB2]"

definition name_chart_plan :: string where \<comment> \<open>Generate charts (pie, line, bar)\<close>
  "name_chart_plan =
     [CHR 0xE7, CHR 0x94, CHR 0x9F, CHR 0xE6, CHR 0x88, CHR 0x90, CHR 0xE5, CHR 0x9C, CHR 0x96,
     CHR 0xE8, CHR 0xA1, CHR 0xA8, CHR 0xEF, CHR 0xBC, CHR 0x88, CHR 0xE5, CHR 0x9C, CHR 0x93,
     CHR 0xE9, CHR 0xA4, CHR 0x85, CHR 0xE5, CHR 0x9C, CHR 0x96, CHR 0xE3, CHR 0x80, CHR 0x81,
     CHR 0xE6, CHR 0x8A, CHR 0x98, CHR 0xE7, CHR 0xB7, CHR 0x9A, CHR 0xE5, CHR 0x9C, CHR 0x96,
     CHR 0xE3, CHR 0x80, CHR 0x81, CHR 0xE9, CHR 0x95, CHR 0xB7, CHR 0xE6, CHR 0xA2, CHR 0x9D,
     CHR 0xE5, CHR 0x9C, CHR 0x96, CHR 0xEF, CHR 0xBC, CHR 0x89]"

definition name_report_plan :: string where \<comment> \<open>Output the improvement report\<close>
  "name_report_plan =
     [CHR 0xE8, CHR 0xBC, CHR 0xB8, CHR 0xE5, CHR 0x87, CHR 0xBA, CHR 0xE6, CHR 0x94, CHR 0xB9,
     CHR 0xE5, CHR 0x96, CHR 0x84, CHR 0xE5, CHR 0xBB, CHR 0xBA, CHR 0xE8, CHR 0xAD, CHR 0xB0,
     CHR 0xE5, CHR 0xA0, CHR 0xB1, CHR 0xE5, CHR 0x91, CHR 0x8A]"

definition name_evaluate :: string where \<comment> \<open>Quality evaluation\<close>
  "name_evaluate =
     [CHR 0xE5, CHR 0x93, CHR 0x81, CHR 0xE8, CHR 0xB3, CHR 0xAA, CHR 0xE8, CHR 0xA9, CHR 0x95,
     CHR 0xE4, CHR 0xBC, CHR 0xB0]"

definition name_fetch_run :: string where \<comment> \<open>Read data\<close>
  "name_fetch_run =
     [CHR 0xE8, CHR 0xAE, CHR 0x80, CHR 0xE5, CHR 0x8F, CHR 0x96, CHR 0xE8, CHR 0xB3, CHR 0x87,
     CHR 0xE6, CHR 0x96, CHR 0x99]"

definition name_cluster_run :: string where \<comment> \<open>Analyse and cluster\<close>
  "name_cluster_run =
     [CHR 0xE5, CHR 0x88, CHR 0x86, CHR 0xE6, CHR 0x9E, CHR 0x90, CHR 0xE5, CHR 0x88, CHR 0x86,
     CHR 0xE7, CHR 0xBE, CHR 0xA4]"

definition name_chart_run :: string where \<comment> \<open>Generate charts\<close>
  "name_chart_run =
     [CHR 0xE7, CHR 0x94, CHR 0x9F, CHR 0xE6, CHR 0x88, CHR 0x90, CHR 0xE5, CHR 0x9C, CHR 0x96,
     CHR 0xE8, CHR 0xA1, CHR 0xA8]"

definition name_report_run :: string where \<comment> \<open>Generate report\<close>
  "name_report_run =
     [CHR 0xE7, CHR 0x94, CHR 0x9F, CHR 0xE6, CHR 0x88, CHR 0x90, CHR 0xE5, CHR 0xA0, CHR 0xB1,
     CHR 0xE5, CHR 0x91, CHR 0x8A]"

text \<open>The two \<^verbatim>\<open>step_names\<close> dicts: the one of the plan display and the one of the progress line.\<close>

definition step_names_plan :: "(string \<times> string) list" where
  "step_names_plan =
     [(''fetch'', name_fetch_plan), (''cluster'', name_cluster_plan),
      (''knowledge_map'', name_knowledge_map), (''wordcloud'', name_wordcloud),
      (''chart'', name_chart_plan), (''report'', name_report_plan),
      (''evaluate'', name_evaluate)]"

definition step_names_run :: "(string \<times> string) list" where
  "step_names_run =
     [(''fetch'', name_fetch_run), (''cluster'', name_cluster_run),
      (''knowledge_map'', name_knowledge_map), (''wordcloud'', name_wordcloud),
      (''chart'', name_chart_run), (''report'', name_report_run),
      (''evaluate'', name_evaluate)]"

text \<open>The fallback of the intent stage and the fallback step list of the plan stage.\<close>

definition default_query_context :: query_ctx where
  "default_query_context =
     \<lparr>intent = ''full_analysis'', time_range = None, chart_types = [],
      needs_clarification = False, clarification_question = Some None\<rparr>"

definition fallback_plan :: "string list" where
  "fallback_plan = [''fetch'', ''cluster'', ''knowledge_map'', ''wordcloud'', ''chart'', ''report'']"

text \<open>
  The three in-place edits of \<^verbatim>\<open>new_plan\<close>, one definition per \<^verbatim>\<open>if\<close>/\<^verbatim>\<open>elif\<close> block.
  \<^verbatim>\<open>list.remove\<close> deletes the first occurrence only, as \<open>remove1\<close> does;
  \<^verbatim>\<open>new_plan[0]\<close> and \<^verbatim>\<open>new_plan[-1]\<close> are read only after the membership test has
  found an element, so the list is not empty there and \<open>hd\<close> and \<open>last\<close> are the reads.
\<close>

definition force_fetch_first :: "string list \<Rightarrow> string list" where
  "force_fetch_first new_plan =
     (if ''fetch'' \<notin> set new_plan then ''fetch'' # new_plan
      else if hd new_plan \<noteq> ''fetch'' then ''fetch'' # remove1 ''fetch'' new_plan
      else new_plan)"

definition force_report_last :: "string list \<Rightarrow> string list" where
  "force_report_last new_plan =
     (if ''report'' \<notin> set new_plan then new_plan @ [''report'']
      else if last new_plan \<noteq> ''report'' then remove1 ''report'' new_plan @ [''report'']
      else new_plan)"

definition force_evaluate_end :: "string list \<Rightarrow> string list" where
  "force_evaluate_end new_plan =
     (if ''evaluate'' \<in> set new_plan then remove1 ''evaluate'' new_plan else new_plan)
     @ [''evaluate'']"

definition normalize_plan :: "string list \<Rightarrow> string list" where
  "normalize_plan new_plan =
     force_evaluate_end (force_report_last (force_fetch_first new_plan))"

text \<open>\<^verbatim>\<open>plan_display\<close> and \<^verbatim>\<open>interrupt_msg\<close>.\<close>

definition plan_display :: "string list \<Rightarrow> string" where
  "plan_display new_plan =
     join [CHR 0x0A]
       (map (\<lambda>(i, s). ''  '' @ str_nat (i + 1) @ ''. '' @ get_or_key step_names_plan s)
            (enumerate 0 new_plan))"

definition interrupt_msg :: "string list \<Rightarrow> string \<Rightarrow> string" where
  "interrupt_msg new_plan explanation =
     plan_header @ plan_display new_plan @ [CHR 0x0A, CHR 0x0A] @ explanation @ plan_question"

text \<open>The f-string of the clarification question: \<^verbatim>\<open>None\<close> prints as its name.\<close>

definition question_text :: "query_ctx \<Rightarrow> string" where
  "question_text qc =
     (case clarification_question qc of
        None \<Rightarrow> default_question
      | Some None \<Rightarrow> ''None''
      | Some (Some q) \<Rightarrow> q)"

text \<open>
  The first stage, when the state has no context: the reply is parsed inside the
  \<^verbatim>\<open>try\<close>, and a reply that is no object fails at the first \<^verbatim>\<open>query_context.get\<close>.
\<close>

definition intent_stage :: "llm \<Rightarrow> string \<Rightarrow> pyerr + query_ctx" where
  "intent_stage l text =
     (case invoke_intent l text of
        Inl x \<Rightarrow> if is_parse_failure x then Inr default_query_context else Inl x
      | Inr (Object q) \<Rightarrow> Inr q
      | Inr (Non_object t) \<Rightarrow> Inl (no_attribute (type_name t) ''get''))"

text \<open>
  The second stage up to the end of its \<^verbatim>\<open>try\<close>: the value bound to \<^verbatim>\<open>new_plan\<close> and the
  explanation. \<^verbatim>\<open>plan_data.get\<close> is inside the \<^verbatim>\<open>try\<close>, but its \<^verbatim>\<open>AttributeError\<close> on a
  reply that is no object is not among the classes caught.
\<close>

definition plan_stage :: "llm \<Rightarrow> query_ctx \<Rightarrow> string \<Rightarrow> pyerr + plan_value \<times> string" where
  "plan_stage l qc text =
     (case invoke_plan l qc text of
        Inl x \<Rightarrow>
          if is_parse_failure x then Inr (Steps fallback_plan, fallback_explanation)
          else Inl x
      | Inr (Object d) \<Rightarrow>
          Inr (case plan_key d of None \<Rightarrow> Steps [] | Some v \<Rightarrow> v,
               case explanation_key d of None \<Rightarrow> [] | Some e \<Rightarrow> e)
      | Inr (Non_object t) \<Rightarrow> Inl (no_attribute (type_name t) ''get''))"

text \<open>
  The three edits on the value bound to \<^verbatim>\<open>new_plan\<close>. On a list they are
  \<open>normalize_plan\<close>. On anything else the first statement raises: the membership test
  on \<^verbatim>\<open>null\<close>, a boolean or a number; \<^verbatim>\<open>insert\<close> or \<^verbatim>\<open>remove\<close> on a string (its first
  character is never \<^verbatim>\<open>"fetch"\<close>); \<^verbatim>\<open>insert\<close> on a dict without the key \<^verbatim>\<open>fetch\<close>, and the
  read of key \<^verbatim>\<open>0\<close> on a dict that has it.
\<close>

definition edit_plan :: "plan_value \<Rightarrow> pyerr + string list" where
  "edit_plan v =
     (case v of
        Steps new_plan \<Rightarrow> Inr (normalize_plan new_plan)
      | Plan_null \<Rightarrow> Inl (not_iterable ''NoneType'')
      | Plan_bool \<Rightarrow> Inl (not_iterable ''bool'')
      | Plan_int \<Rightarrow> Inl (not_iterable ''int'')
      | Plan_float \<Rightarrow> Inl (not_iterable ''float'')
      | Plan_text t \<Rightarrow>
          if \<not> occurs_in ''fetch'' t then Inl (no_attribute ''str'' ''insert'')
          else Inl (no_attribute ''str'' ''remove'')
      | Plan_keys ks \<Rightarrow>
          if ''fetch'' \<notin> set ks then Inl (no_attribute ''dict'' ''insert'')
          else Inl (KeyError ''0''))"

definition supervisor_node :: "llm \<Rightarrow> state \<Rightarrow> pyerr + update" where
  "supervisor_node l s =
     (if \<not> truthy (plan s) then
        (case (case query_context s of
                 Some q \<Rightarrow> Inr q
               | None \<Rightarrow> intent_stage l (user_input s)) of
           Inl x \<Rightarrow> Inl x
         | Inr qc \<Rightarrow>
             if needs_clarification qc then
               Inr [Set_query_context (Some (qc\<lparr>needs_clarification := False\<rparr>)),
                    Set_awaiting_human True,
                    Set_interrupt_message (thinking_face @ question_text qc),
                    Set_messages [AIMessage (thinking_face @ question_text qc)]]
             else
               (case plan_stage l qc (user_input s) of
                  Inl x \<Rightarrow> Inl x
                | Inr (raw_plan, explanation) \<Rightarrow>
                    (case edit_plan raw_plan of
                       Inl x \<Rightarrow> Inl x
                     | Inr new_plan \<Rightarrow>
                         Inr [Set_plan (Some new_plan),
                              Set_query_context (Some qc),
                              Set_plan_approved False,
                              Set_current_step 0,
                              Set_awaiting_human True,
                              Set_interrupt_message (interrupt_msg new_plan explanation),
                              Set_messages [AIMessage (interrupt_msg new_plan explanation)]])))
      else if truthy (plan s) \<and> \<not> plan_approved s then
        Inr [Set_plan_approved True,
             Set_awaiting_human False,
             Set_current_step 0,
             Set_messages [AIMessage msg_plan_confirmed]]
      else if plan_approved s \<and> current_step s < int (length (the (plan s))) then
        (case py_index (the (plan s)) (current_step s) of
           Inl e \<Rightarrow> Inl e
         | Inr next_step \<Rightarrow>
             Inr [Set_current_step (current_step s),
                  Set_awaiting_human False,
                  Set_messages
                    [AIMessage (msg_running @ get_or_key step_names_run next_step @ ''...'')]])
      else
        Inr [Set_awaiting_human True,
             Set_interrupt_message msg_all_done,
             Set_messages [AIMessage msg_all_done]])"

section \<open>Fetch worker (\<^verbatim>\<open>nodes/fetch.py\<close>)\<close>

text \<open>
  \<^verbatim>\<open>read_sheet\<close> (the Google client), the regular-expression engine, pandas and the clock
  are outside the repository's own logic; what they return or raise is a parameter.
  \<^item> \<open>read_sheet\<close>: the rows, or the exception raised.
  \<^item> \<open>match_quarter\<close>, \<open>match_year\<close>, \<open>match_month\<close>: the groups, through \<^verbatim>\<open>int\<close>, of the three
    \<^verbatim>\<open>re.match\<close> calls on \<^verbatim>\<open>time_range.strip().upper()\<close>, or \<open>None\<close> for no match (a group of
    \<^verbatim>\<open>\d\<close> characters always converts).
  \<^item> \<open>search_recent\<close>: group 1 of the \<^verbatim>\<open>re.search\<close> call on \<^verbatim>\<open>time_range\<close>. The pattern lets it
    be a run of digits (given by its value) or a run of the ten numerals U+4E00 ...
    U+5341 (given as the string).
  \<^item> \<open>pd_Timestamp\<close>: \<^verbatim>\<open>pd.Timestamp(year, month, day)\<close>, which raises on a date that does not
    exist; \<open>month_end\<close>: \<^verbatim>\<open>start + pd.offsets.MonthEnd(1)\<close>; \<open>now\<close>: \<^verbatim>\<open>pd.Timestamp.now()\<close>;
    \<open>months_before\<close>: \<^verbatim>\<open>end - pd.DateOffset(months=n)\<close>. A timestamp is always truthy.
  \<^item> \<open>between\<close>: the rows of the frame that the mask keeps.
  \<^item> \<open>to_records\<close>: \<^verbatim>\<open>df.to_dict("records")\<close> of a frame built from the given rows.
  \<^item> \<open>summarize\<close>: the summary text built from the frame and \<^verbatim>\<open>filter_desc\<close>.
\<close>

type_synonym timestamp = int

datatype month_group = Digits int | Numerals string

record env =
  read_sheet :: "string \<Rightarrow> pyerr + row list"
  match_quarter :: "string \<Rightarrow> (int \<times> int) option"
  match_year :: "string \<Rightarrow> int option"
  match_month :: "string \<Rightarrow> (int \<times> int) option"
  search_recent :: "string \<Rightarrow> month_group option"
  pd_Timestamp :: "int \<Rightarrow> int \<Rightarrow> int \<Rightarrow> pyerr + timestamp"
  month_end :: "timestamp \<Rightarrow> timestamp"
  now :: timestamp
  months_before :: "timestamp \<Rightarrow> int \<Rightarrow> pyerr + timestamp"
  between :: "timestamp \<Rightarrow> timestamp \<Rightarrow> row list \<Rightarrow> row list"
  to_records :: "row list \<Rightarrow> row list"
  summarize :: "row list \<Rightarrow> string \<Rightarrow> string"

text \<open>The dict literals of \<^verbatim>\<open>_parse_time_range\<close>; the keys of \<open>cn_map\<close> are the ten numerals.\<close>

definition quarter_starts :: "(int \<times> int \<times> int) list" where
  "quarter_starts = [(1, (1, 1)), (2, (4, 1)), (3, (7, 1)), (4, (10, 1))]"

definition quarter_ends :: "(int \<times> int \<times> int) list" where
  "quarter_ends = [(1, (3, 31)), (2, (6, 30)), (3, (9, 30)), (4, (12, 31))]"

definition cn_map :: "(string \<times> int) list" where
  "cn_map =
     [([CHR 0xE4, CHR 0xB8, CHR 0x80], 1),
      ([CHR 0xE4, CHR 0xBA, CHR 0x8C], 2),
      ([CHR 0xE4, CHR 0xB8, CHR 0x89], 3),
      ([CHR 0xE5, CHR 0x9B, CHR 0x9B], 4),
      ([CHR 0xE4, CHR 0xBA, CHR 0x94], 5),
      ([CHR 0xE5, CHR 0x85, CHR 0xAD], 6),
      ([CHR 0xE4, CHR 0xB8, CHR 0x83], 7),
      ([CHR 0xE5, CHR 0x85, CHR 0xAB], 8),
      ([CHR 0xE4, CHR 0xB9, CHR 0x9D], 9),
      ([CHR 0xE5, CHR 0x8D, CHR 0x81], 10)]"

definition half_year :: string where \<comment> \<open>half a year\<close>
  "half_year =
     [CHR 0xE5, CHR 0x8D, CHR 0x8A, CHR 0xE5, CHR 0xB9, CHR 0xB4]"

text \<open>
  \<^verbatim>\<open>cn_map.get(num_str, None) or int(num_str)\<close>. A run of digits is no key of \<open>cn_map\<close>, and
  \<^verbatim>\<open>int\<close> gives its value. A run of numerals that is a key gives the key's value (never
  zero, so truthy); any other run of numerals is no decimal literal, and \<^verbatim>\<open>int\<close> raises
  \<^verbatim>\<open>ValueError\<close> with the text below (the string in single quotes).
\<close>

definition month_count :: "month_group \<Rightarrow> pyerr + int" where
  "month_count g =
     (case g of
        Digits k \<Rightarrow> Inr k
      | Numerals num_str \<Rightarrow>
          (case map_of cn_map num_str of
             Some n \<Rightarrow> Inr n
           | None \<Rightarrow>
               Inl (ValueError (''invalid literal for int() with base 10: '' @ [CHR 0x27]
                                @ num_str @ [CHR 0x27]))))"

text \<open>
  \<^verbatim>\<open>_parse_time_range\<close>, written from its last \<^verbatim>\<open>if\<close> to its first: each definition is the
  function from one test on, and falls through to the next where the source does.
  \<open>Inr None\<close> is the pair \<^verbatim>\<open>(None, None)\<close>.
\<close>

definition parse_from_half_year :: "env \<Rightarrow> string \<Rightarrow> pyerr + (timestamp \<times> timestamp) option" where
  "parse_from_half_year e tr =
     (if occurs_in half_year tr then
        (case months_before e (now e) 6 of
           Inl x \<Rightarrow> Inl x
         | Inr t_start \<Rightarrow> Inr (Some (t_start, now e)))
      else Inr None)"

definition parse_from_recent :: "env \<Rightarrow> string \<Rightarrow> pyerr + (timestamp \<times> timestamp) option" where
  "parse_from_recent e tr =
     (case search_recent e tr of
        Some g \<Rightarrow>
          (case month_count g of
             Inl x \<Rightarrow> Inl x
           | Inr n \<Rightarrow>
               (case months_before e (now e) n of
                  Inl x \<Rightarrow> Inl x
                | Inr t_start \<Rightarrow> Inr (Some (t_start, now e))))
      | None \<Rightarrow> parse_from_half_year e tr)"

definition parse_from_month :: "env \<Rightarrow> string \<Rightarrow> pyerr + (timestamp \<times> timestamp) option" where
  "parse_from_month e tr =
     (case match_month e tr of
        Some (year, month) \<Rightarrow>
          (case pd_Timestamp e year month 1 of
             Inl x \<Rightarrow> Inl x
           | Inr t_start \<Rightarrow> Inr (Some (t_start, month_end e t_start)))
      | None \<Rightarrow> parse_from_recent e tr)"

definition parse_from_year :: "env \<Rightarrow> string \<Rightarrow> pyerr + (timestamp \<times> timestamp) option" where
  "parse_from_year e tr =
     (case match_year e tr of
        Some year \<Rightarrow>
          (case pd_Timestamp e year 1 1 of
             Inl x \<Rightarrow> Inl x
           | Inr t_start \<Rightarrow>
               (case pd_Timestamp e year 12 31 of
                  Inl x \<Rightarrow> Inl x
                | Inr t_end \<Rightarrow> Inr (Some (t_start, t_end))))
      | None \<Rightarrow> parse_from_month e tr)"

definition parse_time_range :: "env \<Rightarrow> string \<Rightarrow> pyerr + (timestamp \<times> timestamp) option" where
  "parse_time_range e tr =
     (case match_quarter e tr of
        Some (year, q) \<Rightarrow>
          (case (map_of quarter_starts q, map_of quarter_ends q) of
             (Some (sm, sd), Some (em, ed)) \<Rightarrow>
               (case pd_Timestamp e year sm sd of
                  Inl x \<Rightarrow> Inl x
                | Inr t_start \<Rightarrow>
                    (case pd_Timestamp e year em ed of
                       Inl x \<Rightarrow> Inl x
                     | Inr t_end \<Rightarrow> Inr (Some (t_start, t_end))))
           | _ \<Rightarrow> parse_from_year e tr)
      | None \<Rightarrow> parse_from_year e tr)"

definition cross_mark :: string where \<comment> \<open>cross mark and a space\<close>
  "cross_mark =
     [CHR 0xE2, CHR 0x9D, CHR 0x8C] @ '' ''"

definition msg_no_url :: string where \<comment> \<open>No Google Sheet URL given yet, enter it in the sidebar.\<close>
  "msg_no_url =
     [CHR 0xE5, CHR 0xB0, CHR 0x9A, CHR 0xE6, CHR 0x9C, CHR 0xAA, CHR 0xE6, CHR 0x8F, CHR 0x90,
     CHR 0xE4, CHR 0xBE, CHR 0x9B] @ '' Google Sheet URL'' @ [CHR 0xEF, CHR 0xBC, CHR 0x8C,
     CHR 0xE8, CHR 0xAB, CHR 0x8B, CHR 0xE5, CHR 0x9C, CHR 0xA8, CHR 0xE5, CHR 0x81, CHR 0xB4,
     CHR 0xE9, CHR 0x82, CHR 0x8A, CHR 0xE6, CHR 0xAC, CHR 0x84, CHR 0xE8, CHR 0xBC, CHR 0xB8,
     CHR 0xE5, CHR 0x85, CHR 0xA5, CHR 0xE3, CHR 0x80, CHR 0x82]"

definition msg_read_error :: string where \<comment> \<open>Data read error:\<close>
  "msg_read_error =
     [CHR 0xE8, CHR 0xB3, CHR 0x87, CHR 0xE6, CHR 0x96, CHR 0x99, CHR 0xE8, CHR 0xAE, CHR 0x80,
     CHR 0xE5, CHR 0x8F, CHR 0x96, CHR 0xE9, CHR 0x8C, CHR 0xAF, CHR 0xE8, CHR 0xAA, CHR 0xA4,
     CHR 0xEF, CHR 0xBC, CHR 0x9A]"

definition msg_sheet_error :: string where \<comment> \<open>An error occurred while reading the Google Sheet:\<close>
  "msg_sheet_error =
     [CHR 0xE8, CHR 0xAE, CHR 0x80, CHR 0xE5, CHR 0x8F, CHR 0x96] @ '' Google Sheet ''
     @ [CHR 0xE6, CHR 0x99, CHR 0x82, CHR 0xE7, CHR 0x99, CHR 0xBC, CHR 0xE7, CHR 0x94,
     CHR 0x9F, CHR 0xE9, CHR 0x8C, CHR 0xAF, CHR 0xE8, CHR 0xAA, CHR 0xA4, CHR 0xEF, CHR 0xBC,
     CHR 0x9A]"

definition msg_no_data :: string where \<comment> \<open>There is no data in the Google Sheet.\<close>
  "msg_no_data =
     ''Google Sheet '' @ [CHR 0xE4, CHR 0xB8, CHR 0xAD, CHR 0xE6, CHR 0xB2, CHR 0x92, CHR 0xE6,
     CHR 0x9C, CHR 0x89, CHR 0xE8, CHR 0xB3, CHR 0x87, CHR 0xE6, CHR 0x96, CHR 0x99, CHR 0xE3,
     CHR 0x80, CHR 0x82]"

definition warn_in :: string where \<comment> \<open>warning sign, then: in\<close>
  "warn_in =
     [CHR 0xE2, CHR 0x9A, CHR 0xA0, CHR 0xEF, CHR 0xB8, CHR 0x8F] @ '' '' @ [CHR 0xE5, CHR 0x9C,
     CHR 0xA8] @ '' ''"

definition msg_nothing_in_range :: string where \<comment> \<open>no data found within the range.\<close>
  "msg_nothing_in_range =
     '' '' @ [CHR 0xE7, CHR 0xAF, CHR 0x84, CHR 0xE5, CHR 0x9C, CHR 0x8D, CHR 0xE5, CHR 0x85,
     CHR 0xA7, CHR 0xE6, CHR 0x89, CHR 0xBE, CHR 0xE4, CHR 0xB8, CHR 0x8D, CHR 0xE5, CHR 0x88,
     CHR 0xB0, CHR 0xE4, CHR 0xBB, CHR 0xBB, CHR 0xE4, CHR 0xBD, CHR 0x95, CHR 0xE8, CHR 0xB3,
     CHR 0x87, CHR 0xE6, CHR 0x96, CHR 0x99, CHR 0xE3, CHR 0x80, CHR 0x82]"

definition msg_read_ok :: string where \<comment> \<open>bar chart sign, then: Data read successfully: and a newline\<close>
  "msg_read_ok =
     [CHR 0xF0, CHR 0x9F, CHR 0x93, CHR 0x8A] @ '' '' @ [CHR 0xE5, CHR 0xB7, CHR 0xB2, CHR 0xE6,
     CHR 0x88, CHR 0x90, CHR 0xE5, CHR 0x8A, CHR 0x9F, CHR 0xE8, CHR 0xAE, CHR 0x80, CHR 0xE5,
     CHR 0x8F, CHR 0x96, CHR 0xE8, CHR 0xB3, CHR 0x87, CHR 0xE6, CHR 0x96, CHR 0x99, CHR 0xEF,
     CHR 0xBC, CHR 0x9A, CHR 0x0A]"

definition date_column :: string where \<comment> \<open>feedback date\<close>
  "date_column =
     [CHR 0xE5, CHR 0x9B, CHR 0x9E, CHR 0xE9, CHR 0xA5, CHR 0x8B, CHR 0xE6, CHR 0x97, CHR 0xA5,
     CHR 0xE6, CHR 0x9C, CHR 0x9F]"

definition desc_open :: string where \<comment> \<open>(filtered\<close>
  "desc_open =
     [CHR 0xEF, CHR 0xBC, CHR 0x88, CHR 0xE5, CHR 0xB7, CHR 0xB2, CHR 0xE7, CHR 0xAF, CHR 0xA9,
     CHR 0xE9, CHR 0x81, CHR 0xB8] @ '' ''"

definition desc_colon :: string where \<comment> \<open>full-width colon\<close>
  "desc_colon =
     [CHR 0xEF, CHR 0xBC, CHR 0x9A]"

definition desc_close :: string where \<comment> \<open>rows)\<close>
  "desc_close =
     '' '' @ [CHR 0xE7, CHR 0xAD, CHR 0x86, CHR 0xEF, CHR 0xBC, CHR 0x89]"

text \<open>The dict every failure branch returns: one message, and the two data keys set to \<^verbatim>\<open>None\<close>.\<close>

definition failure :: "string \<Rightarrow> update" where
  "failure content = [Set_messages [AIMessage content], Set_raw_data None, Set_dataframe_summary None]"

text \<open>\<^verbatim>\<open>"..." in df.columns\<close> for a frame built from a list of dicts: some row has the key.\<close>

definition has_column :: "string \<Rightarrow> row list \<Rightarrow> bool" where
  "has_column c rows = (c \<in> set (concat (map (map fst) rows)))"

definition filter_desc_text :: "string \<Rightarrow> nat \<Rightarrow> nat \<Rightarrow> string" where
  "filter_desc_text tr kept before_count =
     desc_open @ tr @ desc_colon @ str_nat kept @ ''/'' @ str_nat before_count @ desc_close"

definition success :: "env \<Rightarrow> row list \<Rightarrow> row list \<Rightarrow> string \<Rightarrow> update" where
  "success e raw df filter_desc =
     [Set_raw_data (Some raw),
      Set_dataframe_summary (Some (summarize e df filter_desc)),
      Set_messages [AIMessage (msg_read_ok @ summarize e df filter_desc)]]"

definition fetch_node :: "env \<Rightarrow> state \<Rightarrow> pyerr + update" where
  "fetch_node e s =
     (if \<not> truthy (sheet_url s) then Inr (failure (cross_mark @ msg_no_url))
      else
        (case read_sheet e (the (sheet_url s)) of
           Inl (FileNotFoundError m) \<Rightarrow> Inr (failure (cross_mark @ m))
         | Inl (ValueError m) \<Rightarrow> Inr (failure (cross_mark @ msg_read_error @ m))
         | Inl (JSONDecodeError m) \<Rightarrow> Inr (failure (cross_mark @ msg_read_error @ m))
         | Inl x \<Rightarrow> Inr (failure (cross_mark @ msg_sheet_error @ str_of_err x))
         | Inr rows \<Rightarrow>
             if rows = [] then Inr (failure (cross_mark @ msg_no_data))
             else
               (let tr = (case query_context s of None \<Rightarrow> None | Some qc \<Rightarrow> time_range qc)
                in if truthy tr \<and> has_column date_column rows then
                     (case parse_time_range e (the tr) of
                        Inl x \<Rightarrow> Inl x
                      | Inr rng \<Rightarrow>
                          (let (df, filter_desc) =
                                 (case rng of
                                    Some (t_start, t_end) \<Rightarrow>
                                      (between e t_start t_end rows,
                                       filter_desc_text (the tr)
                                         (length (between e t_start t_end rows)) (length rows))
                                  | None \<Rightarrow> (rows, []));
                               records = to_records e df
                           in if records = []
                              then Inr (failure (warn_in @ the tr @ msg_nothing_in_range))
                              else Inr (success e records df filter_desc)))
                   else Inr (success e rows rows []))))"

section \<open>What the user sees of an exception (\<^verbatim>\<open>app.py\<close>)\<close>

text \<open>
  \<^verbatim>\<open>run_graph\<close> catches every exception that leaves \<^verbatim>\<open>graph.invoke\<close> and appends one
  assistant entry to the chat history: the cross mark, the text below and \<^verbatim>\<open>str(e)\<close>.
\<close>

definition msg_run_error :: string where \<comment> \<open>An error occurred while running:\<close>
  "msg_run_error =
     [CHR 0xE5, CHR 0x9F, CHR 0xB7, CHR 0xE8, CHR 0xA1, CHR 0x8C, CHR 0xE6, CHR 0x99, CHR 0x82, CHR 0xE7, CHR 0x99, CHR 0xBC, CHR 0xE7, CHR 0x94, CHR 0x9F, CHR 0xE9, CHR 0x8C, CHR 0xAF, CHR 0xE8, CHR 0xAA, CHR 0xA4, CHR 0xEF, CHR 0xBC, CHR 0x9A]"

definition run_graph_error :: "pyerr \<Rightarrow> string" where
  "run_graph_error x = cross_mark @ msg_run_error @ str_of_err x"

section \<open>One resume of the graph (\<^verbatim>\<open>build_graph\<close>)\<close>

text \<open>
  The edges out of \<^verbatim>\<open>human_approval\<close> and \<^verbatim>\<open>supervisor\<close> as \<^verbatim>\<open>build_graph\<close> wires them: the
  gate's dict is merged, \<^verbatim>\<open>_route_from_human\<close> names the next node (\<^verbatim>\<open>supervisor\<close>, the
  only entry of its path map), that node's dict is merged, and \<^verbatim>\<open>_route_from_supervisor\<close>
  names the node after it. The result is that node and the state it starts from. When
  it is \<^verbatim>\<open>human_approval\<close> the run is suspended again, since that node begins with
  \<^verbatim>\<open>interrupt\<close>; the graph has no edge to \<^verbatim>\<open>END\<close>.
\<close>

definition resume_gate :: "llm \<Rightarrow> string \<Rightarrow> state \<Rightarrow> pyerr + (string \<times> state)" where
  "resume_gate l response s =
     (let s1 = merge s (human_approval_node response s)
      in if route_from_human s1 = ''supervisor'' then
           (case supervisor_node l s1 of
              Inl x \<Rightarrow> Inl x
            | Inr u \<Rightarrow>
                (case route_from_supervisor (merge s1 u) of
                   Inl x \<Rightarrow> Inl x
                 | Inr node \<Rightarrow> Inr (node, merge s1 u)))
         else Inr (route_from_human s1, s1))"

text \<open>
  A suspended run resumed with one value after another, as long as it is suspended at
  the gate again.
\<close>

fun resume_all :: "llm \<Rightarrow> string list \<Rightarrow> state \<Rightarrow> pyerr + (string \<times> state)" where
  "resume_all l [] s = Inr (''human_approval'', s)"
| "resume_all l (r # rs) s =
     (case resume_gate l r s of
        Inl x \<Rightarrow> Inl x
      | Inr (node, s') \<Rightarrow>
          if node = ''human_approval'' then resume_all l rs s' else Inr (node, s'))"

section \<open>The specification's wording, for comparison\<close>

text \<open>The "normalized" plans of the specification, in the source's own indexing.\<close>

definition is_normalized :: "string list \<Rightarrow> bool" where
  "is_normalized p \<longleftrightarrow>
     py_index p 0 = Inr ''fetch'' \<and>
     py_index p (- 1) = Inr ''evaluate'' \<and>
     py_index p (- 2) = Inr ''report''"

text \<open>
  A plan proposal: the dict of the new-plan branch for a given final plan, context and
  explanation.
\<close>

definition plan_proposal :: "string list \<Rightarrow> query_ctx \<Rightarrow> string \<Rightarrow> update" where
  "plan_proposal new_plan qc explanation =
     [Set_plan (Some new_plan),
      Set_query_context (Some qc),
      Set_plan_approved False,
      Set_current_step 0,
      Set_awaiting_human True,
      Set_interrupt_message (interrupt_msg new_plan explanation),
      Set_messages [AIMessage (interrupt_msg new_plan explanation)]]"

text \<open>
  The components the Router chooses between, the node name of each, and the five rules
  as the specification words them ("plan present" is a plan that is not absent).
\<close>

datatype component = Approval_Gate | Worker_Unit string | Plan_Synthesizer

fun node_name :: "component \<Rightarrow> string" where
  "node_name Approval_Gate = ''human_approval''"
| "node_name (Worker_Unit w) = w"
| "node_name Plan_Synthesizer = ''supervisor''"

definition router_rules :: "state \<Rightarrow> component" where
  "router_rules s =
     (if awaiting_human s then Approval_Gate
      else if plan s \<noteq> None \<and> \<not> plan_approved s then Approval_Gate
      else if plan s \<noteq> None \<and> plan_approved s
              \<and> current_step s \<ge> int (length (the (plan s)))
        then Approval_Gate
      else if plan s \<noteq> None \<and> plan_approved s
              \<and> current_step s < int (length (the (plan s)))
        then Worker_Unit (the (plan s) ! nat (current_step s))
      else Plan_Synthesizer)"

text \<open>
  The same rules with the fourth changed to what the source returns for a step name
  outside the catalogue, and the data model's reading of a plan, whose steps are names
  of the catalogue.
\<close>

definition router_rules_amended :: "state \<Rightarrow> component" where
  "router_rules_amended s =
     (if awaiting_human s then Approval_Gate
      else if plan s \<noteq> None \<and> \<not> plan_approved s then Approval_Gate
      else if plan s \<noteq> None \<and> plan_approved s
              \<and> current_step s \<ge> int (length (the (plan s)))
        then Approval_Gate
      else if plan s \<noteq> None \<and> plan_approved s
              \<and> current_step s < int (length (the (plan s)))
        then (if the (plan s) ! nat (current_step s) \<in> set catalog
              then Worker_Unit (the (plan s) ! nat (current_step s))
              else Plan_Synthesizer)
      else Plan_Synthesizer)"

definition steps_known :: "state \<Rightarrow> bool" where
  "steps_known s = (case plan s of None \<Rightarrow> True | Some p \<Rightarrow> set p \<subseteq> set catalog)"

section \<open>Concrete inputs\<close>

text \<open>
  The state of a thread's first run, as \<^verbatim>\<open>run_graph\<close> of \<^verbatim>\<open>app.py\<close> builds it (the user's
  text, one human message, the sheet URL of the sidebar), and two chat models: one
  whose replies never parse, one whose plan reply is an empty step list.
\<close>

definition first_turn :: "string \<Rightarrow> string option \<Rightarrow> state" where
  "first_turn text url =
     \<lparr>messages = [HumanMessage text], user_input = text, plan = None,
      plan_approved = False, current_step = 0, awaiting_human = False,
      interrupt_message = None, sheet_url = url, raw_data = None,
      dataframe_summary = None, query_context = None\<rparr>"

definition llm_unparsable :: llm where
  "llm_unparsable =
     \<lparr>invoke_intent = (\<lambda>_. Inl (JSONDecodeError ''Expecting value: line 1 column 1 (char 0)'')),
      invoke_plan = (\<lambda>_ _. Inl (JSONDecodeError ''Expecting value: line 1 column 1 (char 0)''))\<rparr>"

definition llm_empty_plan :: llm where
  "llm_empty_plan =
     \<lparr>invoke_intent = (\<lambda>_. Inl (JSONDecodeError ''Expecting value: line 1 column 1 (char 0)'')),
      invoke_plan = (\<lambda>_ _. Inr (Object \<lparr>plan_key = Some (Steps []), explanation_key = None\<rparr>))\<rparr>"

text \<open>
  Two chat models whose intent reply is the well-formed default and whose plan reply is
  malformed: a bare JSON array (the step list without the object around it), and an
  object with an integer of 5000 digits, on which \<^verbatim>\<open>json.loads\<close> raises a plain
  \<^verbatim>\<open>ValueError\<close>.
\<close>

definition llm_bare_array :: llm where
  "llm_bare_array =
     \<lparr>invoke_intent = (\<lambda>_. Inr (Object default_query_context)),
      invoke_plan = (\<lambda>_ _. Inr (Non_object Py_list))\<rparr>"

definition digit_limit_text :: string where
  "digit_limit_text =
     ''Exceeds the limit (4300 digits) for integer string conversion: ''
     @ ''value has 5000 digits; use sys.set_int_max_str_digits() to increase the limit''"

definition llm_long_integer :: llm where
  "llm_long_integer =
     \<lparr>invoke_intent = (\<lambda>_. Inr (Object default_query_context)),
      invoke_plan = (\<lambda>_ _. Inl (ValueError digit_limit_text))\<rparr>"

text \<open>
  The thread after its first run has proposed the seven-step plan (suspended at the gate
  for approval), the same thread once every step has run and the completion pause is
  reached, and a six-step plan whose fetch has just failed.
\<close>

definition awaiting_approval :: state where
  "awaiting_approval =
     merge (first_turn ''analyse'' None)
       (plan_proposal catalog default_query_context fallback_explanation)"

definition all_done :: state where
  "all_done =
     awaiting_approval\<lparr>plan_approved := True, current_step := 7, awaiting_human := True,
       interrupt_message := Some msg_all_done\<rparr>"

definition fetch_failed :: state where
  "fetch_failed =
     awaiting_approval\<lparr>plan := Some [''fetch'', ''cluster'', ''wordcloud'', ''chart'', ''report'',
       ''evaluate''], plan_approved := True, current_step := 0, awaiting_human := False\<rparr>"

text \<open>
  An approved plan with a step outside the catalogue (the normalisation of the reply
  \<^verbatim>\<open>fetch, sentiment, report\<close>), after its first step has run.
\<close>

definition off_catalog :: state where
  "off_catalog =
     awaiting_approval\<lparr>plan := Some [''fetch'', ''sentiment'', ''report'', ''evaluate''],
       plan_approved := True, current_step := 1, awaiting_human := False\<rparr>"

text \<open>
  The parameters of the Fetch worker for a reader with a fixed outcome: the answers of
  the regular expressions on the two time ranges used below (\<^verbatim>\<open>2024Q4\<close>, and U+6700 U+8FD1
  U+5341 U+4E8C U+500B U+6708, "the last twelve months", whose group 1 is the two
  numerals U+5341 U+4E8C), days numbered \<open>372 * year + 31 * month + day\<close>, and a mask that
  keeps no row. Beside it a one-row sheet with the date column, and the two states that
  ask for these time ranges.
\<close>

definition last_twelve_months :: string where \<comment> \<open>the last twelve months\<close>
  "last_twelve_months =
     [CHR 0xE6, CHR 0x9C, CHR 0x80, CHR 0xE8, CHR 0xBF, CHR 0x91, CHR 0xE5, CHR 0x8D, CHR 0x81, CHR 0xE4, CHR 0xBA, CHR 0x8C, CHR 0xE5, CHR 0x80, CHR 0x8B, CHR 0xE6, CHR 0x9C, CHR 0x88]"

definition numeral_twelve :: string where \<comment> \<open>ten, two\<close>
  "numeral_twelve =
     [CHR 0xE5, CHR 0x8D, CHR 0x81, CHR 0xE4, CHR 0xBA, CHR 0x8C]"

definition sample_env :: "pyerr + row list \<Rightarrow> env" where
  "sample_env outcome =
     \<lparr>read_sheet = (\<lambda>_. outcome),
      match_quarter = (\<lambda>t. if t = ''2024Q4'' then Some (2024, 4) else None),
      match_year = (\<lambda>_. None),
      match_month = (\<lambda>_. None),
      search_recent = (\<lambda>t. if t = last_twelve_months then Some (Numerals numeral_twelve)
                            else None),
      pd_Timestamp = (\<lambda>y m d. Inr (372 * y + 31 * m + d)),
      month_end = (\<lambda>t. t + 30),
      now = 753300,
      months_before = (\<lambda>t n. Inr (t - 31 * n)),
      between = (\<lambda>_ _ _. []),
      to_records = (\<lambda>rows. rows),
      summarize = (\<lambda>_ _. [])\<rparr>"

definition one_row :: "row list" where
  "one_row = [[(date_column, Text ''2023-01-05'')]]"

definition asks_2024Q4 :: state where
  "asks_2024Q4 =
     (first_turn ''analyse 2024Q4'' (Some ''sheet-id''))
       \<lparr>query_context := Some (default_query_context\<lparr>time_range := Some ''2024Q4''\<rparr>)\<rparr>"

definition asks_twelve_months :: state where
  "asks_twelve_months =
     (first_turn last_twelve_months (Some ''sheet-id''))
       \<lparr>query_context := Some (default_query_context\<lparr>time_range := Some last_twelve_months\<rparr>)\<rparr>"

section \<open>Shape of a normalised plan\<close>

lemma force_fetch_first_shape: "\<exists>xs. force_fetch_first p = ''fetch'' # xs"
proof (cases p)
  case Nil
  then show ?thesis by (simp add: force_fetch_first_def)
next
  case (Cons x xs)
  then show ?thesis by (simp add: force_fetch_first_def)
qed

lemma force_report_last_shape:
  "\<exists>ys. force_report_last (''fetch'' # xs) = ''fetch'' # ys @ [''report'']"
proof (cases "''report'' \<in> set xs")
  case False
  then show ?thesis by (simp add: force_report_last_def)
next
  case True
  then have ne: "xs \<noteq> []" by auto
  show ?thesis
  proof (cases "last xs = ''report''")
    case True
    with ne have "xs = butlast xs @ [''report'']"
      by (metis append_butlast_last_id)
    then have "force_report_last (''fetch'' # xs) = ''fetch'' # butlast xs @ [''report'']"
      using \<open>''report'' \<in> set xs\<close> ne True by (simp add: force_report_last_def)
    then show ?thesis by blast
  next
    case False
    then show ?thesis
      using \<open>''report'' \<in> set xs\<close> ne by (simp add: force_report_last_def)
  qed
qed

lemma force_evaluate_end_shape:
  "\<exists>zs. force_evaluate_end (''fetch'' # ys @ [''report''])
        = ''fetch'' # zs @ [''report'', ''evaluate'']"
  by (simp add: force_evaluate_end_def remove1_append)

lemma normalize_plan_shape:
  "\<exists>zs. normalize_plan p = ''fetch'' # zs @ [''report'', ''evaluate'']"
proof -
  obtain xs where a: "force_fetch_first p = ''fetch'' # xs"
    using force_fetch_first_shape by blast
  obtain ys where b: "force_report_last (''fetch'' # xs) = ''fetch'' # ys @ [''report'']"
    using force_report_last_shape by blast
  obtain zs where c: "force_evaluate_end (''fetch'' # ys @ [''report''])
      = ''fetch'' # zs @ [''report'', ''evaluate'']"
    using force_evaluate_end_shape by blast
  show ?thesis
    unfolding normalize_plan_def a b c by blast
qed

lemma py_index_last:
  "py_index (r @ [x, y]) (- 1) = Inr y"
proof -
  have "nat (int (length (r @ [x, y])) + - 1) = length r + 1" by simp
  then show ?thesis
    unfolding py_index_def by (simp add: nth_append)
qed

lemma py_index_before_last:
  "py_index (r @ [x, y]) (- 2) = Inr x"
proof -
  have "nat (int (length (r @ [x, y])) + - 2) = length r" by simp
  then show ?thesis
    unfolding py_index_def by (simp add: nth_append)
qed

lemma normalized_shape:
  assumes "is_normalized p"
  shows "\<exists>zs. p = ''fetch'' # zs @ [''report'', ''evaluate'']"
proof -
  from assms have a: "py_index p 0 = Inr ''fetch''"
    and b: "py_index p (- 1) = Inr ''evaluate''"
    and c: "py_index p (- 2) = Inr ''report''"
    by (simp_all add: is_normalized_def)
  from c have len2: "2 \<le> length p"
    by (auto simp: py_index_def split: if_splits)
  then obtain q y where p1: "p = q @ [y]"
    by (cases p rule: rev_cases) auto
  with len2 obtain r x where q1: "q = r @ [x]"
    by (cases q rule: rev_cases) auto
  have p2: "p = r @ [x, y]"
    using p1 q1 by simp
  have py: "y = ''evaluate''"
    using b unfolding p2 py_index_last by simp
  have px: "x = ''report''"
    using c unfolding p2 py_index_before_last by simp
  have "r \<noteq> []"
    using a p1 q1 px by (auto simp: py_index_def)
  then obtain w zs where r1: "r = w # zs"
    by (cases r) auto
  with a p1 q1 have "w = ''fetch''"
    by (simp add: py_index_def)
  with p1 q1 r1 px py show ?thesis by simp
qed

lemma shape_is_normalized: "is_normalized (''fetch'' # zs @ [''report'', ''evaluate''])"
proof -
  have "py_index ((''fetch'' # zs) @ [''report'', ''evaluate'']) (- 1) = Inr ''evaluate''"
    by (rule py_index_last)
  moreover have "py_index ((''fetch'' # zs) @ [''report'', ''evaluate'']) (- 2) = Inr ''report''"
    by (rule py_index_before_last)
  moreover have "py_index (''fetch'' # zs @ [''report'', ''evaluate'']) 0 = Inr ''fetch''"
    by (simp add: py_index_def)
  ultimately show ?thesis
    by (simp add: is_normalized_def)
qed

lemma normalize_plan_fixed:
  assumes "''report'' \<notin> set zs" and "''evaluate'' \<notin> set zs"
  shows "normalize_plan (''fetch'' # zs @ [''report'', ''evaluate''])
         = ''fetch'' # zs @ [''report'', ''evaluate'']"
proof -
  let ?p = "''fetch'' # zs @ [''report'', ''evaluate'']"
  have 1: "force_fetch_first ?p = ?p"
    by (simp add: force_fetch_first_def)
  have 2: "force_report_last ?p = ''fetch'' # zs @ [''evaluate'', ''report'']"
    using assms by (simp add: force_report_last_def remove1_append)
  have 3: "force_evaluate_end (''fetch'' # zs @ [''evaluate'', ''report'']) = ?p"
    using assms by (simp add: force_evaluate_end_def remove1_append)
  show ?thesis
    unfolding normalize_plan_def 1 2 3 ..
qed

lemma supervisor_plan_origin:
  assumes "supervisor_node l s = Inr u" and "Set_plan (Some p) \<in> set u"
  shows "\<exists>raw. p = normalize_plan raw"
proof -
  have "\<exists>raw. edit_plan v = Inr p \<longrightarrow> p = normalize_plan raw" for v
    by (cases v) (auto simp: edit_plan_def)
  then have e: "edit_plan v = Inr p \<Longrightarrow> \<exists>raw. p = normalize_plan raw" for v
    by blast
  from assms show ?thesis
    unfolding supervisor_node_def
    by (auto split: if_splits sum.splits prod.splits dest: e)
qed

section \<open>C1: every synthesized plan is normalised\<close>

text \<open>
  Once past the clarification test, the new-plan branch returns a plan whenever the
  reply is an object whose \<^verbatim>\<open>plan\<close> is a list (or has no such key) and whenever it is one of
  the parse failures the \<^verbatim>\<open>except\<close> clause names.
\<close>

lemma plan_stage_returns:
  "invoke_plan l qc text = Inl x \<Longrightarrow> is_parse_failure x
     \<Longrightarrow> plan_stage l qc text = Inr (Steps fallback_plan, fallback_explanation)"
  "invoke_plan l qc text = Inr (Object d) \<Longrightarrow> plan_key d = Some (Steps raw)
     \<Longrightarrow> plan_stage l qc text
         = Inr (Steps raw, case explanation_key d of None \<Rightarrow> [] | Some e \<Rightarrow> e)"
  "invoke_plan l qc text = Inr (Object d) \<Longrightarrow> plan_key d = None
     \<Longrightarrow> plan_stage l qc text
         = Inr (Steps [], case explanation_key d of None \<Rightarrow> [] | Some e \<Rightarrow> e)"
  by (simp_all add: plan_stage_def)

lemma new_plan_branch_returns:
  assumes "\<not> truthy (plan s)"
    and "(case query_context s of Some q \<Rightarrow> Inr q | None \<Rightarrow> intent_stage l (user_input s))
           = Inr qc"
    and "\<not> needs_clarification qc"
    and "plan_stage l qc (user_input s) = Inr (Steps raw, explanation)"
  shows "supervisor_node l s = Inr (plan_proposal (normalize_plan raw) qc explanation)"
  using assms by (simp add: supervisor_node_def plan_proposal_def edit_plan_def)

text \<open>
  C1. Every plan that the new-plan branch of \<^verbatim>\<open>supervisor_node\<close> writes, whatever step list
  the generator returned (empty and unparsable replies included), has at least three
  elements, begins with \<^verbatim>\<open>fetch\<close>, ends with \<^verbatim>\<open>evaluate\<close> and has \<^verbatim>\<open>report\<close> just before
  the end.
\<close>

theorem synthesized_plan_normalized:
  assumes "supervisor_node l s = Inr u" and "Set_plan (Some p) \<in> set u"
  shows "3 \<le> length p \<and> py_index p 0 = Inr ''fetch''
         \<and> py_index p (- 1) = Inr ''evaluate'' \<and> py_index p (- 2) = Inr ''report''"
proof -
  obtain raw where "p = normalize_plan raw"
    using supervisor_plan_origin [OF assms] by blast
  then obtain zs where p: "p = ''fetch'' # zs @ [''report'', ''evaluate'']"
    using normalize_plan_shape by metis
  have "is_normalized p"
    unfolding p by (rule shape_is_normalized)
  moreover have "3 \<le> length p"
    unfolding p by simp
  ultimately show ?thesis
    by (simp add: is_normalized_def)
qed

theorem synthesized_plan_normalized_witness:
  "supervisor_node llm_empty_plan (first_turn ''analyse'' None)
     = Inr (plan_proposal [''fetch'', ''report'', ''evaluate''] default_query_context [])
   \<and> Set_plan (Some [''fetch'', ''report'', ''evaluate''])
       \<in> set (plan_proposal [''fetch'', ''report'', ''evaluate''] default_query_context [])
   \<and> 3 \<le> length [''fetch'', ''report'', ''evaluate'']
   \<and> py_index [''fetch'', ''report'', ''evaluate''] 0 = Inr ''fetch''
   \<and> py_index [''fetch'', ''report'', ''evaluate''] (- 1) = Inr ''evaluate''
   \<and> py_index [''fetch'', ''report'', ''evaluate''] (- 2) = Inr ''report''"
proof -
  have n: "normalize_plan [] = [''fetch'', ''report'', ''evaluate'']"
    by (simp add: normalize_plan_def force_fetch_first_def force_report_last_def
        force_evaluate_end_def)
  have run: "supervisor_node llm_empty_plan (first_turn ''analyse'' None)
      = Inr (plan_proposal [''fetch'', ''report'', ''evaluate''] default_query_context [])"
    by (simp add: supervisor_node_def intent_stage_def plan_stage_def edit_plan_def
        llm_empty_plan_def first_turn_def plan_proposal_def default_query_context_def n)
  have mem: "Set_plan (Some [''fetch'', ''report'', ''evaluate''])
      \<in> set (plan_proposal [''fetch'', ''report'', ''evaluate''] default_query_context [])"
    by (simp add: plan_proposal_def)
  from synthesized_plan_normalized [OF run mem] run mem show ?thesis
    by blast
qed

section \<open>C5: re-applying the normalisation\<close>

text \<open>
  C5, as stated, fails: a normalised plan in which \<^verbatim>\<open>report\<close> or \<^verbatim>\<open>evaluate\<close> occurs twice is
  changed, because \<^verbatim>\<open>list.remove\<close> takes the first occurrence away and \<^verbatim>\<open>append\<close> puts the
  name at the end. The two plans below are plans the normalisation itself produces
  (from \<^verbatim>\<open>fetch, report, cluster, report\<close> and from \<^verbatim>\<open>evaluate, evaluate, cluster, report\<close>).
\<close>

theorem normalize_plan_changes_duplicate_report:
  "is_normalized [''fetch'', ''report'', ''cluster'', ''report'', ''evaluate'']
   \<and> normalize_plan [''fetch'', ''report'', ''cluster'', ''report'', ''evaluate'']
       = [''fetch'', ''cluster'', ''report'', ''report'', ''evaluate'']
   \<and> is_normalized [''fetch'', ''evaluate'', ''cluster'', ''report'', ''evaluate'']
   \<and> normalize_plan [''fetch'', ''evaluate'', ''cluster'', ''report'', ''evaluate'']
       = [''fetch'', ''cluster'', ''evaluate'', ''report'', ''evaluate'']"
  by (simp add: is_normalized_def py_index_def normalize_plan_def force_fetch_first_def
      force_report_last_def force_evaluate_end_def)

text \<open>
  C5, amended. For every normalised plan (first element \<^verbatim>\<open>fetch\<close>, last \<^verbatim>\<open>evaluate\<close>,
  second-to-last \<^verbatim>\<open>report\<close>) in which \<^verbatim>\<open>report\<close> and \<^verbatim>\<open>evaluate\<close> each occur exactly once,
  re-applying the normalisation yields the identical plan.
\<close>

theorem normalize_plan_idempotent:
  assumes "is_normalized p"
    and "count_list p ''report'' = 1"
    and "count_list p ''evaluate'' = 1"
  shows "normalize_plan p = p"
proof -
  obtain zs where p: "p = ''fetch'' # zs @ [''report'', ''evaluate'']"
    using normalized_shape [OF assms(1)] by blast
  have "count_list zs ''report'' = 0" and "count_list zs ''evaluate'' = 0"
    using assms(2,3) unfolding p by simp_all
  then have "''report'' \<notin> set zs" and "''evaluate'' \<notin> set zs"
    by (simp_all add: count_list_0_iff)
  then show ?thesis
    unfolding p by (rule normalize_plan_fixed)
qed

theorem normalize_plan_idempotent_witness:
  "is_normalized catalog \<and> count_list catalog ''report'' = 1
   \<and> count_list catalog ''evaluate'' = 1 \<and> normalize_plan catalog = catalog"
proof -
  have n: "is_normalized catalog"
    by (simp add: is_normalized_def py_index_def catalog_def)
  have r: "count_list catalog ''report'' = 1"
    by (simp add: catalog_def)
  have e: "count_list catalog ''evaluate'' = 1"
    by (simp add: catalog_def)
  from normalize_plan_idempotent [OF n r e] n r e show ?thesis by blast
qed

section \<open>Facts about the concrete inputs\<close>

lemmas token_defs = approval_tokens_def tok_tongyi_def tok_queren_def tok_jixu_def tok_hao_def
  tok_shi_def

lemma awaiting_approval_fields:
  "plan awaiting_approval = Some catalog"
  "query_context awaiting_approval = Some default_query_context"
  "user_input awaiting_approval = ''analyse''"
  "current_step awaiting_approval = 0"
  "plan_approved awaiting_approval = False"
  "awaiting_human awaiting_approval = True"
  "raw_data awaiting_approval = None"
  by (simp_all add: awaiting_approval_def merge_def first_turn_def plan_proposal_def)

lemma fetch_failed_fields:
  "plan fetch_failed = Some [''fetch'', ''cluster'', ''wordcloud'', ''chart'', ''report'', ''evaluate'']"
  "current_step fetch_failed = 0"
  "plan_approved fetch_failed = True"
  "awaiting_human fetch_failed = False"
  "raw_data fetch_failed = None"
  by (simp_all add: fetch_failed_def awaiting_approval_fields)

lemma all_done_fields:
  "plan all_done = Some catalog"
  "current_step all_done = 7"
  "plan_approved all_done = True"
  "awaiting_human all_done = True"
  "raw_data all_done = None"
  by (simp_all add: all_done_def awaiting_approval_fields)

section \<open>C4: what the Approval Gate writes\<close>

text \<open>
  C4. Whatever the suspended state, a resume value that is an approval token sets
  \<^verbatim>\<open>plan_approved\<close> to true and \<^verbatim>\<open>awaiting_human\<close> to false and leaves \<^verbatim>\<open>plan\<close>,
  \<^verbatim>\<open>query_context\<close>, \<^verbatim>\<open>user_input\<close> and \<^verbatim>\<open>current_step\<close> as they were; any other resume value
  becomes \<^verbatim>\<open>user_input\<close>, clears \<^verbatim>\<open>plan\<close> and \<^verbatim>\<open>query_context\<close>, and sets \<^verbatim>\<open>plan_approved\<close> and
  \<^verbatim>\<open>awaiting_human\<close> to false.
\<close>

theorem approval_gate_effect:
  "(r \<in> set approval_tokens \<longrightarrow>
      plan_approved (merge s (human_approval_node r s))
      \<and> \<not> awaiting_human (merge s (human_approval_node r s))
      \<and> plan (merge s (human_approval_node r s)) = plan s
      \<and> query_context (merge s (human_approval_node r s)) = query_context s
      \<and> user_input (merge s (human_approval_node r s)) = user_input s
      \<and> current_step (merge s (human_approval_node r s)) = current_step s)
   \<and> (r \<notin> set approval_tokens \<longrightarrow>
      user_input (merge s (human_approval_node r s)) = r
      \<and> plan (merge s (human_approval_node r s)) = None
      \<and> query_context (merge s (human_approval_node r s)) = None
      \<and> \<not> plan_approved (merge s (human_approval_node r s))
      \<and> \<not> awaiting_human (merge s (human_approval_node r s)))"
  by (simp add: human_approval_node_def merge_def)

theorem approval_gate_effect_witness:
  "''approved'' \<in> set approval_tokens
   \<and> plan_approved (merge awaiting_approval (human_approval_node ''approved'' awaiting_approval))
   \<and> \<not> awaiting_human (merge awaiting_approval (human_approval_node ''approved'' awaiting_approval))
   \<and> plan (merge awaiting_approval (human_approval_node ''approved'' awaiting_approval))
       = Some catalog
   \<and> current_step (merge awaiting_approval (human_approval_node ''approved'' awaiting_approval)) = 0
   \<and> ''no charts please'' \<notin> set approval_tokens
   \<and> user_input (merge awaiting_approval (human_approval_node ''no charts please'' awaiting_approval))
       = ''no charts please''
   \<and> plan (merge awaiting_approval (human_approval_node ''no charts please'' awaiting_approval))
       = None
   \<and> query_context (merge awaiting_approval (human_approval_node ''no charts please'' awaiting_approval))
       = None
   \<and> \<not> plan_approved (merge awaiting_approval (human_approval_node ''no charts please'' awaiting_approval))"
proof -
  have a: "''approved'' \<in> set approval_tokens"
    by (simp add: approval_tokens_def)
  have b: "''no charts please'' \<notin> set approval_tokens"
    by (simp add: token_defs)
  show ?thesis
    using a b approval_gate_effect [of "''approved''" awaiting_approval]
      approval_gate_effect [of "''no charts please''" awaiting_approval]
    by (simp add: awaiting_approval_fields)
qed

section \<open>C10: the approval tokens\<close>

text \<open>
  C10. The gate takes the approval branch exactly for the six strings \<^verbatim>\<open>approved\<close>,
  U+540C U+610F, U+78BA U+8A8D, U+7E7C U+7E8C, U+597D and U+662F, which are six different
  strings; every other resume value, \<^verbatim>\<open>yes\<close> and \<^verbatim>\<open>ok\<close> among them, is a revision request
  that clears the plan.
\<close>

theorem approval_tokens_exact:
  "(human_approval_node r s = [Set_plan_approved True, Set_awaiting_human False]
      \<longleftrightarrow> r = ''approved'' \<or> r = tok_tongyi \<or> r = tok_queren \<or> r = tok_jixu
          \<or> r = tok_hao \<or> r = tok_shi)
   \<and> (\<not> (r = ''approved'' \<or> r = tok_tongyi \<or> r = tok_queren \<or> r = tok_jixu
          \<or> r = tok_hao \<or> r = tok_shi) \<longrightarrow>
        human_approval_node r s
          = [Set_user_input r, Set_plan None, Set_query_context None,
             Set_plan_approved False, Set_awaiting_human False]
        \<and> plan (merge s (human_approval_node r s)) = None)
   \<and> distinct [''approved'', tok_tongyi, tok_queren, tok_jixu, tok_hao, tok_shi]
   \<and> plan (merge s (human_approval_node ''yes'' s)) = None
   \<and> plan (merge s (human_approval_node ''ok'' s)) = None"
proof -
  have yes: "''yes'' \<notin> set approval_tokens" and ok: "''ok'' \<notin> set approval_tokens"
    by (simp_all add: token_defs)
  have d: "distinct [''approved'', tok_tongyi, tok_queren, tok_jixu, tok_hao, tok_shi]"
    by (simp add: token_defs)
  have m: "r \<in> set approval_tokens \<longleftrightarrow> r = ''approved'' \<or> r = tok_tongyi \<or> r = tok_queren
      \<or> r = tok_jixu \<or> r = tok_hao \<or> r = tok_shi"
    by (auto simp: approval_tokens_def)
  have 1: "human_approval_node r s = [Set_plan_approved True, Set_awaiting_human False]
      \<longleftrightarrow> r \<in> set approval_tokens"
    by (simp add: human_approval_node_def)
  have 2: "r \<notin> set approval_tokens \<longrightarrow>
        human_approval_node r s
          = [Set_user_input r, Set_plan None, Set_query_context None,
             Set_plan_approved False, Set_awaiting_human False]
        \<and> plan (merge s (human_approval_node r s)) = None"
    by (simp add: human_approval_node_def merge_def)
  have 3: "plan (merge s (human_approval_node ''yes'' s)) = None"
    using yes by (simp add: human_approval_node_def merge_def)
  have 4: "plan (merge s (human_approval_node ''ok'' s)) = None"
    using ok by (simp add: human_approval_node_def merge_def)
  show ?thesis
    using 1 2 3 4 d unfolding m by blast
qed

theorem approval_tokens_exact_witness:
  "\<not> (''yes'' = ''approved'' \<or> ''yes'' = tok_tongyi \<or> ''yes'' = tok_queren \<or> ''yes'' = tok_jixu
          \<or> ''yes'' = tok_hao \<or> ''yes'' = tok_shi)
   \<and> human_approval_node ''yes'' awaiting_approval
          = [Set_user_input ''yes'', Set_plan None, Set_query_context None,
             Set_plan_approved False, Set_awaiting_human False]
   \<and> plan (merge awaiting_approval (human_approval_node ''yes'' awaiting_approval)) = None
   \<and> human_approval_node tok_hao awaiting_approval
          = [Set_plan_approved True, Set_awaiting_human False]"
proof -
  have n: "\<not> (''yes'' = ''approved'' \<or> ''yes'' = tok_tongyi \<or> ''yes'' = tok_queren
      \<or> ''yes'' = tok_jixu \<or> ''yes'' = tok_hao \<or> ''yes'' = tok_shi)"
    by (simp add: token_defs)
  show ?thesis
    using n approval_tokens_exact [of "''yes''" awaiting_approval]
      approval_tokens_exact [of tok_hao awaiting_approval]
    by blast
qed

section \<open>C3: the Step Sequencer\<close>

text \<open>
  The cursor starts at 0 and no node makes it negative: the gate and the Fetch worker do
  not write it (nor do the six other workers), the Plan Synthesizer writes 0 or the
  cursor itself, and the Step Sequencer writes the cursor plus one or the plan's length.
\<close>

lemma cursor_after_gate:
  "current_step (merge s (human_approval_node r s)) = current_step s"
  by (simp add: human_approval_node_def merge_def)

lemma cursor_after_supervisor:
  assumes "supervisor_node l s = Inr u" and "0 \<le> current_step s"
  shows "0 \<le> current_step (merge s u)"
  using assms unfolding supervisor_node_def merge_def
  by (auto split: if_splits sum.splits prod.splits)

lemma cursor_after_step:
  assumes "step_complete_node s = Inr u" and "0 \<le> current_step s"
  shows "0 \<le> current_step (merge s u)"
  using assms unfolding step_complete_node_def Let_def merge_def
  by (auto split: if_splits sum.splits)

lemma cursor_after_fetch:
  assumes "fetch_node e s = Inr u"
  shows "current_step (merge s u) = current_step s"
  using assms unfolding fetch_node_def Let_def merge_def failure_def success_def
  by (auto split: if_splits sum.splits pyerr.splits prod.splits option.splits)

text \<open>
  C3. With a cursor that is not negative (it is a zero-based cursor: the source writes
  only \<^verbatim>\<open>0\<close>, the cursor plus one and the plan's length into it), the Step Sequencer
  sets \<^verbatim>\<open>current_step\<close> to the plan's length when the plan is present, the cursor is below
  its length, the step at the cursor is \<^verbatim>\<open>fetch\<close> and \<^verbatim>\<open>raw_data\<close> is absent; in every other
  case it sets it to the cursor plus one.
\<close>

theorem step_sequencer_cursor:
  assumes "0 \<le> current_step s"
  shows "step_complete_node s =
     Inr [Set_current_step
       (if plan s \<noteq> None \<and> current_step s < int (length (the (plan s)))
           \<and> the (plan s) ! nat (current_step s) = ''fetch'' \<and> raw_data s = None
        then int (length (the (plan s)))
        else current_step s + 1)]"
  using assms
  by (cases "plan s") (auto simp: step_complete_node_def py_index_def)

theorem step_sequencer_cursor_witness:
  "0 \<le> current_step fetch_failed
   \<and> step_complete_node fetch_failed = Inr [Set_current_step 6]
   \<and> 0 \<le> current_step all_done
   \<and> step_complete_node all_done = Inr [Set_current_step 8]"
proof -
  have a: "0 \<le> current_step fetch_failed"
    by (simp add: fetch_failed_fields)
  have b: "0 \<le> current_step all_done"
    by (simp add: all_done_fields)
  from step_sequencer_cursor [OF a] step_sequencer_cursor [OF b] a b show ?thesis
    by (simp add: fetch_failed_fields all_done_fields catalog_def)
qed

section \<open>C2: the Router\<close>

text \<open>
  The Router runs on the edge out of \<^verbatim>\<open>supervisor\<close> only, so the states it receives are
  the states \<^verbatim>\<open>supervisor_node\<close> leaves: there a pause is pending or a plan is present
  (every return of the no-plan branch sets \<^verbatim>\<open>awaiting_human\<close>), and the last
  \<^verbatim>\<open>return\<close> of \<^verbatim>\<open>_route_from_supervisor\<close> is never reached.
\<close>

lemma after_supervisor_awaiting_or_plan:
  assumes "supervisor_node l s = Inr u"
  shows "awaiting_human (merge s u) \<or> truthy (plan (merge s u))"
  using assms unfolding supervisor_node_def merge_def
  by (auto split: if_splits sum.splits prod.splits)

lemma router_where_paused_or_planned:
  assumes "awaiting_human s \<or> truthy (plan s)" and "0 \<le> current_step s"
  shows "route_from_supervisor s = Inr (node_name (router_rules_amended s))"
proof (cases "plan s")
  case None
  with assms show ?thesis
    by (simp add: route_from_supervisor_def router_rules_amended_def)
next
  case (Some p)
  with assms show ?thesis
    by (auto simp: route_from_supervisor_def router_rules_amended_def py_index_def
        node_map_get_def)
qed

text \<open>Where every step of the plan is a catalogue name, the five rules hold as worded.\<close>

lemma router_rules_when_steps_known:
  assumes "supervisor_node l s = Inr u" and "0 \<le> current_step s"
    and "steps_known (merge s u)"
  shows "route_from_supervisor (merge s u) = Inr (node_name (router_rules (merge s u)))"
proof -
  let ?t = "merge s u"
  have a: "awaiting_human ?t \<or> truthy (plan ?t)"
    using assms(1) by (rule after_supervisor_awaiting_or_plan)
  have c: "0 \<le> current_step ?t"
    using assms(1,2) by (rule cursor_after_supervisor)
  have "the (plan ?t) ! nat (current_step ?t) \<in> set catalog"
    if "plan ?t \<noteq> None" and "current_step ?t < int (length (the (plan ?t)))"
  proof -
    from that obtain p where p: "plan ?t = Some p" by auto
    with that c have "nat (current_step ?t) < length p" by simp
    then have "p ! nat (current_step ?t) \<in> set p" by (rule nth_mem)
    with assms(3) p show ?thesis by (auto simp: steps_known_def)
  qed
  then have "router_rules_amended ?t = router_rules ?t"
    using a by (auto simp: router_rules_amended_def router_rules_def)
  with router_where_paused_or_planned [OF a c] show ?thesis
    by simp
qed

lemma off_catalog_fields:
  "plan off_catalog = Some [''fetch'', ''sentiment'', ''report'', ''evaluate'']"
  "current_step off_catalog = 1"
  "plan_approved off_catalog = True"
  "awaiting_human off_catalog = False"
  by (simp_all add: off_catalog_def awaiting_approval_fields)

text \<open>
  The name returned for a step outside the catalogue is none the edge can lead to; what
  the engine does with it is outside the Router.
\<close>

lemma supervisor_not_in_path_map: "''supervisor'' \<notin> set supervisor_path_map"
  by (simp add: supervisor_path_map_def)

text \<open>
  C2, as stated, fails at its fourth rule. The generator may name a step outside the
  catalogue, and the normalisation keeps it: the reply \<^verbatim>\<open>fetch, sentiment, report\<close> gives the
  plan \<^verbatim>\<open>fetch, sentiment, report, evaluate\<close>. With that plan approved and the cursor on
  \<^verbatim>\<open>sentiment\<close>, the state the Plan Synthesizer hands to the Router is sent to
  \<^verbatim>\<open>supervisor\<close> (the default of \<^verbatim>\<open>node_map.get\<close>), and there is no Worker Unit of that name.
\<close>

theorem router_step_off_catalog:
  "normalize_plan [''fetch'', ''sentiment'', ''report'']
     = [''fetch'', ''sentiment'', ''report'', ''evaluate'']
   \<and> supervisor_node llm_unparsable off_catalog
     = Inr [Set_current_step 1, Set_awaiting_human False,
            Set_messages [AIMessage (msg_running @ ''sentiment'' @ ''...'')]]
   \<and> route_from_supervisor
       (merge off_catalog
          [Set_current_step 1, Set_awaiting_human False,
           Set_messages [AIMessage (msg_running @ ''sentiment'' @ ''...'')]])
     = Inr ''supervisor''
   \<and> node_name (router_rules
       (merge off_catalog
          [Set_current_step 1, Set_awaiting_human False,
           Set_messages [AIMessage (msg_running @ ''sentiment'' @ ''...'')]]))
     = ''sentiment''"
proof -
  have n: "normalize_plan [''fetch'', ''sentiment'', ''report'']
      = [''fetch'', ''sentiment'', ''report'', ''evaluate'']"
    by (simp add: normalize_plan_def force_fetch_first_def force_report_last_def
        force_evaluate_end_def)
  have g: "get_or_key step_names_run ''sentiment'' = ''sentiment''"
    by (simp add: get_or_key_def step_names_run_def)
  have u: "supervisor_node llm_unparsable off_catalog
      = Inr [Set_current_step 1, Set_awaiting_human False,
             Set_messages [AIMessage (msg_running @ ''sentiment'' @ ''...'')]]"
    by (simp add: supervisor_node_def off_catalog_fields py_index_def g)
  have r: "route_from_supervisor
       (merge off_catalog
          [Set_current_step 1, Set_awaiting_human False,
           Set_messages [AIMessage (msg_running @ ''sentiment'' @ ''...'')]])
     = Inr ''supervisor''"
    by (simp add: route_from_supervisor_def merge_def off_catalog_fields py_index_def
        node_map_get_def catalog_def)
  have c: "node_name (router_rules
       (merge off_catalog
          [Set_current_step 1, Set_awaiting_human False,
           Set_messages [AIMessage (msg_running @ ''sentiment'' @ ''...'')]]))
     = ''sentiment''"
    by (simp add: router_rules_def merge_def off_catalog_fields)
  from n u r c show ?thesis
    by blast
qed

text \<open>
  C2, amended. On every state it receives (the Shared State as the Plan Synthesizer
  leaves it, the cursor not negative) the Router applies, in first-match order:
  (1) \<^verbatim>\<open>awaiting_human\<close> true gives the Approval Gate; (2) plan present and not approved
  gives the Approval Gate; (3) plan present, approved and the cursor at or past the
  plan's length gives the Approval Gate; (4) plan present, approved and the cursor below
  the plan's length gives the Worker Unit named by the step at the cursor when that name
  is one of the seven catalogue steps, and otherwise the name \<^verbatim>\<open>supervisor\<close> of the Plan
  Synthesizer's node; (5) otherwise (no plan at all) the Plan Synthesizer.
\<close>

theorem router_after_supervisor:
  assumes "supervisor_node l s = Inr u" and "0 \<le> current_step s"
  shows "route_from_supervisor (merge s u)
         = Inr (node_name (router_rules_amended (merge s u)))"
proof -
  have a: "awaiting_human (merge s u) \<or> truthy (plan (merge s u))"
    using assms(1) by (rule after_supervisor_awaiting_or_plan)
  have c: "0 \<le> current_step (merge s u)"
    using assms by (rule cursor_after_supervisor)
  from a c show ?thesis
    by (rule router_where_paused_or_planned)
qed

theorem router_after_supervisor_witness:
  "supervisor_node llm_unparsable fetch_failed
     = Inr [Set_current_step 0, Set_awaiting_human False,
            Set_messages [AIMessage (msg_running @ name_fetch_run @ ''...'')]]
   \<and> 0 \<le> current_step fetch_failed
   \<and> route_from_supervisor
       (merge fetch_failed
          [Set_current_step 0, Set_awaiting_human False,
           Set_messages [AIMessage (msg_running @ name_fetch_run @ ''...'')]])
     = Inr ''fetch''
   \<and> router_rules_amended
       (merge fetch_failed
          [Set_current_step 0, Set_awaiting_human False,
           Set_messages [AIMessage (msg_running @ name_fetch_run @ ''...'')]])
     = Worker_Unit ''fetch''"
proof -
  let ?u = "[Set_current_step 0, Set_awaiting_human False,
             Set_messages [AIMessage (msg_running @ name_fetch_run @ ''...'')]]"
  have g: "get_or_key step_names_run ''fetch'' = name_fetch_run"
    by (simp add: get_or_key_def step_names_run_def)
  have u: "supervisor_node llm_unparsable fetch_failed = Inr ?u"
    by (simp add: supervisor_node_def fetch_failed_fields py_index_def g)
  have h: "0 \<le> current_step fetch_failed"
    by (simp add: fetch_failed_fields)
  have r: "router_rules_amended (merge fetch_failed ?u) = Worker_Unit ''fetch''"
    by (simp add: router_rules_amended_def merge_def fetch_failed_fields catalog_def)
  from router_after_supervisor [OF u h] u h r show ?thesis
    by simp
qed

section \<open>C7: approving at the completion pause\<close>

lemma completion_supervisor:
  assumes "plan s = Some p" and "p \<noteq> []" and "plan_approved s"
    and "int (length p) \<le> current_step s"
  shows "supervisor_node l s =
     Inr [Set_awaiting_human True, Set_interrupt_message msg_all_done,
          Set_messages [AIMessage msg_all_done]]"
  using assms by (simp add: supervisor_node_def)

lemma resume_at_completion:
  assumes "plan s = Some p" and "p \<noteq> []" and "plan_approved s"
    and "int (length p) \<le> current_step s" and "r \<in> set approval_tokens"
  shows "resume_gate l r s =
     Inr (''human_approval'',
          s\<lparr>plan_approved := True, awaiting_human := True,
            interrupt_message := Some msg_all_done,
            messages := messages s @ [AIMessage msg_all_done]\<rparr>)"
  using assms
  by (simp add: resume_gate_def human_approval_node_def merge_def
      route_from_human_def supervisor_node_def route_from_supervisor_def)

text \<open>However many approvals follow, the run stays suspended at the completion pause.\<close>

lemma completion_pause_is_final:
  assumes "plan s = Some p" and "p \<noteq> []" and "plan_approved s"
    and "int (length p) \<le> current_step s" and "set rs \<subseteq> set approval_tokens"
  shows "\<exists>s'. resume_all l rs s = Inr (''human_approval'', s')
              \<and> plan s' = Some p \<and> plan_approved s' \<and> current_step s' = current_step s"
  using assms
proof (induction rs arbitrary: s)
  case Nil
  then show ?case by simp
next
  case (Cons r rs)
  let ?s = "s\<lparr>plan_approved := True, awaiting_human := True,
            interrupt_message := Some msg_all_done,
            messages := messages s @ [AIMessage msg_all_done]\<rparr>"
  from Cons.prems have r: "r \<in> set approval_tokens" and rs: "set rs \<subseteq> set approval_tokens"
    by simp_all
  have step: "resume_gate l r s = Inr (''human_approval'', ?s)"
    using Cons.prems(1-4) r by (rule resume_at_completion)
  have "\<exists>s'. resume_all l rs ?s = Inr (''human_approval'', s')
              \<and> plan s' = Some p \<and> plan_approved s' \<and> current_step s' = current_step ?s"
    using Cons.prems(1-4) rs by (intro Cons.IH) simp_all
  then show ?case
    using step by simp
qed

text \<open>
  C7 says that an approval at the completion pause ends the paused state. In the source
  it does not: the gate's only edge leads to \<^verbatim>\<open>supervisor\<close>, whose last branch sets
  \<^verbatim>\<open>awaiting_human\<close> again, and the Router sends the run back to \<^verbatim>\<open>human_approval\<close>, where it
  is suspended once more with the same completion message. For every state at the
  completion pause (plan present and not empty, approved, cursor at or past its length)
  and every approval token, the resumed run stops at \<^verbatim>\<open>human_approval\<close> with
  \<^verbatim>\<open>awaiting_human\<close> true; the state it stops in is again at the completion pause.
\<close>

theorem completion_gate_repauses:
  assumes "plan s = Some p" and "p \<noteq> []" and "plan_approved s"
    and "int (length p) \<le> current_step s" and "r \<in> set approval_tokens"
  shows "resume_gate l r s =
     Inr (''human_approval'',
          s\<lparr>plan_approved := True, awaiting_human := True,
            interrupt_message := Some msg_all_done,
            messages := messages s @ [AIMessage msg_all_done]\<rparr>)"
  using assms by (rule resume_at_completion)

theorem completion_gate_repauses_witness:
  "plan all_done = Some catalog \<and> catalog \<noteq> [] \<and> plan_approved all_done
   \<and> int (length catalog) \<le> current_step all_done
   \<and> ''approved'' \<in> set approval_tokens
   \<and> resume_gate llm_unparsable ''approved'' all_done =
     Inr (''human_approval'',
          all_done\<lparr>plan_approved := True, awaiting_human := True,
            interrupt_message := Some msg_all_done,
            messages := messages all_done @ [AIMessage msg_all_done]\<rparr>)"
proof -
  have 1: "plan all_done = Some catalog"
    by (simp add: all_done_fields)
  have 2: "catalog \<noteq> []"
    by (simp add: catalog_def)
  have 3: "plan_approved all_done"
    by (simp add: all_done_fields)
  have 4: "int (length catalog) \<le> current_step all_done"
    by (simp add: all_done_fields catalog_def)
  have 5: "''approved'' \<in> set approval_tokens"
    by (simp add: approval_tokens_def)
  from completion_gate_repauses [OF 1 2 3 4 5] 1 2 3 4 5 show ?thesis
    by blast
qed

section \<open>C9: a plan that is present but not approved\<close>

text \<open>
  C9. When \<^verbatim>\<open>supervisor_node\<close> runs on a state whose plan is present (a list that is not
  empty, the test being \<^verbatim>\<open>if plan\<close>) and not approved, it returns the dict that sets
  \<^verbatim>\<open>plan_approved\<close> to true and \<^verbatim>\<open>current_step\<close> to 0; no resume value is among its inputs.
\<close>

theorem unapproved_plan_approved_by_supervisor:
  assumes "plan s = Some p" and "p \<noteq> []" and "\<not> plan_approved s"
  shows "supervisor_node l s =
           Inr [Set_plan_approved True, Set_awaiting_human False, Set_current_step 0,
                Set_messages [AIMessage msg_plan_confirmed]]
         \<and> plan_approved (merge s [Set_plan_approved True, Set_awaiting_human False,
               Set_current_step 0, Set_messages [AIMessage msg_plan_confirmed]])
         \<and> current_step (merge s [Set_plan_approved True, Set_awaiting_human False,
               Set_current_step 0, Set_messages [AIMessage msg_plan_confirmed]]) = 0"
  using assms by (simp add: supervisor_node_def merge_def)

theorem unapproved_plan_approved_by_supervisor_witness:
  "plan (awaiting_approval\<lparr>awaiting_human := False\<rparr>) = Some catalog
   \<and> catalog \<noteq> []
   \<and> \<not> plan_approved (awaiting_approval\<lparr>awaiting_human := False\<rparr>)
   \<and> supervisor_node llm_unparsable (awaiting_approval\<lparr>awaiting_human := False\<rparr>) =
           Inr [Set_plan_approved True, Set_awaiting_human False, Set_current_step 0,
                Set_messages [AIMessage msg_plan_confirmed]]"
proof -
  have 1: "plan (awaiting_approval\<lparr>awaiting_human := False\<rparr>) = Some catalog"
    by (simp add: awaiting_approval_fields)
  have 2: "catalog \<noteq> []"
    by (simp add: catalog_def)
  have 3: "\<not> plan_approved (awaiting_approval\<lparr>awaiting_human := False\<rparr>)"
    by (simp add: awaiting_approval_fields)
  from unapproved_plan_approved_by_supervisor [OF 1 2 3] 1 2 3 show ?thesis
    by blast
qed

section \<open>C6: a plan reply that does not parse\<close>

lemma normalize_fallback: "normalize_plan fallback_plan = catalog"
  by (simp add: normalize_plan_def fallback_plan_def catalog_def force_fetch_first_def
      force_report_last_def force_evaluate_end_def)

text \<open>
  For the two classes the \<^verbatim>\<open>except\<close> clause names the fallback works: the final plan is
  the seven canonical steps and the node returns the ordinary plan proposal, the very
  dict returned for a well-formed reply that lists the six fallback steps with the
  fallback explanation.
\<close>

lemma caught_parse_failure_falls_back:
  assumes "\<not> truthy (plan s)"
    and "(case query_context s of Some q \<Rightarrow> Inr q | None \<Rightarrow> intent_stage l (user_input s))
           = Inr qc"
    and "\<not> needs_clarification qc"
    and "invoke_plan l qc (user_input s) = Inl x" and "is_parse_failure x"
  shows "supervisor_node l s = Inr (plan_proposal catalog qc fallback_explanation)
    \<and> supervisor_node l s =
        supervisor_node
          (l\<lparr>invoke_plan := \<lambda>_ _. Inr (Object \<lparr>plan_key = Some (Steps fallback_plan),
                                         explanation_key = Some fallback_explanation\<rparr>)\<rparr>) s"
proof -
  let ?l = "l\<lparr>invoke_plan := \<lambda>_ _. Inr (Object \<lparr>plan_key = Some (Steps fallback_plan),
                                         explanation_key = Some fallback_explanation\<rparr>)\<rparr>"
  have same: "intent_stage ?l = intent_stage l"
    by (simp add: intent_stage_def fun_eq_iff)
  have a: "supervisor_node l s = Inr (plan_proposal catalog qc fallback_explanation)"
    using assms
    by (simp add: supervisor_node_def plan_stage_def edit_plan_def plan_proposal_def
        normalize_fallback)
  have b: "supervisor_node ?l s = Inr (plan_proposal catalog qc fallback_explanation)"
    using assms(1-3) unfolding supervisor_node_def same
    by (simp add: plan_stage_def edit_plan_def plan_proposal_def normalize_fallback)
  from a b show ?thesis
    by simp
qed

lemma caught_parse_failure_example:
  "supervisor_node llm_unparsable (first_turn ''analyse'' None)
     = Inr (plan_proposal catalog default_query_context fallback_explanation)"
  by (simp add: supervisor_node_def intent_stage_def plan_stage_def edit_plan_def
      llm_unparsable_def first_turn_def plan_proposal_def normalize_fallback
      default_query_context_def)

text \<open>
  Every other way in which the reply fails to be a plan object leaves the node as an
  exception: an exception of another class from the client or \<^verbatim>\<open>json.loads\<close>, a JSON value
  that is no object, and a \<^verbatim>\<open>plan\<close> that is no list.
\<close>

lemma uncaught_plan_reply_raises:
  assumes "\<not> truthy (plan s)"
    and "(case query_context s of Some q \<Rightarrow> Inr q | None \<Rightarrow> intent_stage l (user_input s))
           = Inr qc"
    and "\<not> needs_clarification qc"
  shows "invoke_plan l qc (user_input s) = Inl x \<Longrightarrow> \<not> is_parse_failure x
           \<Longrightarrow> supervisor_node l s = Inl x"
    and "invoke_plan l qc (user_input s) = Inr (Non_object t)
           \<Longrightarrow> supervisor_node l s = Inl (no_attribute (type_name t) ''get'')"
    and "invoke_plan l qc (user_input s) = Inr (Object d) \<Longrightarrow> plan_key d = Some Plan_null
           \<Longrightarrow> supervisor_node l s = Inl (not_iterable ''NoneType'')"
  using assms by (simp_all add: supervisor_node_def plan_stage_def edit_plan_def)

text \<open>
  C6 claims that whenever the plan generator's output cannot be parsed the final plan
  is the canonical seven steps and no error reaches the user. Two replies that the
  source does not recover from: a bare JSON array (the step list without its object),
  on which \<^verbatim>\<open>plan_data.get\<close> raises \<^verbatim>\<open>AttributeError\<close>, and an object holding an integer of
  5000 digits, on which \<^verbatim>\<open>json.loads\<close> raises a plain \<^verbatim>\<open>ValueError\<close>. Neither class is named
  by the \<^verbatim>\<open>except\<close> clause, the exception leaves \<^verbatim>\<open>supervisor_node\<close> without any plan, and
  \<^verbatim>\<open>run_graph\<close> shows it in the chat after the cross mark.
\<close>

theorem malformed_plan_reply_raises:
  "supervisor_node llm_bare_array (first_turn ''analyse'' None)
     = Inl (AttributeError ([CHR 0x27] @ ''list'' @ [CHR 0x27]
                             @ '' object has no attribute '' @ [CHR 0x27] @ ''get''
                             @ [CHR 0x27]))
   \<and> run_graph_error (AttributeError ([CHR 0x27] @ ''list'' @ [CHR 0x27]
                             @ '' object has no attribute '' @ [CHR 0x27] @ ''get''
                             @ [CHR 0x27]))
     = cross_mark @ msg_run_error @ [CHR 0x27] @ ''list'' @ [CHR 0x27]
         @ '' object has no attribute '' @ [CHR 0x27] @ ''get'' @ [CHR 0x27]
   \<and> supervisor_node llm_long_integer (first_turn ''analyse'' None)
     = Inl (ValueError digit_limit_text)
   \<and> run_graph_error (ValueError digit_limit_text)
     = cross_mark @ msg_run_error @ digit_limit_text"
proof -
  let ?s = "first_turn ''analyse'' None"
  have p: "\<not> truthy (plan ?s)"
    by (simp add: first_turn_def)
  have n: "\<not> needs_clarification default_query_context"
    by (simp add: default_query_context_def)
  have a: "(case query_context ?s of
              Some q \<Rightarrow> Inr q
            | None \<Rightarrow> intent_stage llm_bare_array (user_input ?s))
           = Inr default_query_context"
    by (simp add: first_turn_def intent_stage_def llm_bare_array_def)
  have b: "(case query_context ?s of
              Some q \<Rightarrow> Inr q
            | None \<Rightarrow> intent_stage llm_long_integer (user_input ?s))
           = Inr default_query_context"
    by (simp add: first_turn_def intent_stage_def llm_long_integer_def)
  have 1: "supervisor_node llm_bare_array ?s = Inl (no_attribute (type_name Py_list) ''get'')"
    by (rule uncaught_plan_reply_raises(2) [OF p a n]) (simp add: llm_bare_array_def)
  have 2: "supervisor_node llm_long_integer ?s = Inl (ValueError digit_limit_text)"
    by (rule uncaught_plan_reply_raises(1) [OF p b n]) (simp_all add: llm_long_integer_def)
  from 1 2 show ?thesis
    by (simp add: no_attribute_def quoted_def run_graph_error_def)
qed

section \<open>C8: the failures of the Fetch worker\<close>

lemmas fetch_text_defs = cross_mark_def msg_no_url_def msg_read_error_def msg_sheet_error_def
  msg_no_data_def warn_in_def msg_nothing_in_range_def

lemma failure_texts_distinct:
  "distinct [cross_mark @ msg_no_url, cross_mark @ msg_read_error @ m1,
             cross_mark @ msg_sheet_error @ m2, cross_mark @ msg_no_data,
             warn_in @ tr @ msg_nothing_in_range]"
  by (simp add: fetch_text_defs)

lemma merge_failure:
  "merge s (failure c) =
     s\<lparr>messages := messages s @ [AIMessage c], raw_data := None, dataframe_summary := None\<rparr>"
  by (simp add: merge_def failure_def)

lemma fetch_no_url:
  "\<not> truthy (sheet_url s) \<Longrightarrow> fetch_node e s = Inr (failure (cross_mark @ msg_no_url))"
  by (simp add: fetch_node_def)

lemma fetch_not_found:
  "truthy (sheet_url s) \<Longrightarrow> read_sheet e (the (sheet_url s)) = Inl (FileNotFoundError m)
   \<Longrightarrow> fetch_node e s = Inr (failure (cross_mark @ m))"
  by (simp add: fetch_node_def)

lemma fetch_value_error:
  "truthy (sheet_url s) \<Longrightarrow> read_sheet e (the (sheet_url s)) = Inl (ValueError m)
   \<Longrightarrow> fetch_node e s = Inr (failure (cross_mark @ msg_read_error @ m))"
  by (simp add: fetch_node_def)

lemma fetch_other_error:
  "truthy (sheet_url s) \<Longrightarrow> read_sheet e (the (sheet_url s)) = Inl x
   \<Longrightarrow> x = IndexError \<or> x = OtherException m
   \<Longrightarrow> fetch_node e s = Inr (failure (cross_mark @ msg_sheet_error @ str_of_err x))"
  by (auto simp: fetch_node_def)

lemma fetch_empty:
  "truthy (sheet_url s) \<Longrightarrow> read_sheet e (the (sheet_url s)) = Inr []
   \<Longrightarrow> fetch_node e s = Inr (failure (cross_mark @ msg_no_data))"
  by (simp add: fetch_node_def)

lemma fetch_nothing_in_range:
  "truthy (sheet_url s) \<Longrightarrow> read_sheet e (the (sheet_url s)) = Inr rows \<Longrightarrow> rows \<noteq> []
   \<Longrightarrow> query_context s = Some qc \<Longrightarrow> time_range qc = Some tr \<Longrightarrow> tr \<noteq> []
   \<Longrightarrow> has_column date_column rows \<Longrightarrow> parse_time_range e tr = Inr rng
   \<Longrightarrow> to_records e (case rng of Some (a, b) \<Rightarrow> between e a b rows | None \<Rightarrow> rows) = []
   \<Longrightarrow> fetch_node e s = Inr (failure (warn_in @ tr @ msg_nothing_in_range))"
  by (cases rng) (auto simp: fetch_node_def Let_def)

text \<open>
  The call of \<^verbatim>\<open>_parse_time_range\<close> is outside every \<^verbatim>\<open>try\<close>: what it raises leaves the node.
\<close>

lemma fetch_time_range_error:
  "truthy (sheet_url s) \<Longrightarrow> read_sheet e (the (sheet_url s)) = Inr rows \<Longrightarrow> rows \<noteq> []
   \<Longrightarrow> query_context s = Some qc \<Longrightarrow> time_range qc = Some tr \<Longrightarrow> tr \<noteq> []
   \<Longrightarrow> has_column date_column rows \<Longrightarrow> parse_time_range e tr = Inl x
   \<Longrightarrow> fetch_node e s = Inl x"
  by (simp add: fetch_node_def)

lemma asks_2024Q4_fields:
  "sheet_url asks_2024Q4 = Some ''sheet-id''"
  "query_context asks_2024Q4 = Some (default_query_context\<lparr>time_range := Some ''2024Q4''\<rparr>)"
  by (simp_all add: asks_2024Q4_def first_turn_def)

text \<open>
  The six failure branches do what C8 says of them. In each sub-kind (no source URL,
  source not found, value or format error, any other exception of the reader, source
  empty, no rows after the time-range filter) the worker returns, without raising, a
  dict of one message with \<^verbatim>\<open>raw_data\<close> and \<^verbatim>\<open>dataframe_summary\<close> set to \<^verbatim>\<open>None\<close>, and nothing
  else; the messages of the five sub-kinds other than not-found are pairwise different,
  whatever the exception texts and the time range.
\<close>

lemma fetch_failure_kinds:
  "(\<not> truthy (sheet_url s) \<longrightarrow>
      fetch_node e s = Inr (failure (cross_mark @ msg_no_url)))
   \<and> (truthy (sheet_url s) \<and> read_sheet e (the (sheet_url s)) = Inl (FileNotFoundError m) \<longrightarrow>
      fetch_node e s = Inr (failure (cross_mark @ m)))
   \<and> (truthy (sheet_url s) \<and> read_sheet e (the (sheet_url s)) = Inl (ValueError m) \<longrightarrow>
      fetch_node e s = Inr (failure (cross_mark @ msg_read_error @ m)))
   \<and> (truthy (sheet_url s) \<and> read_sheet e (the (sheet_url s)) = Inl x
        \<and> (x = IndexError \<or> x = OtherException m) \<longrightarrow>
      fetch_node e s = Inr (failure (cross_mark @ msg_sheet_error @ str_of_err x)))
   \<and> (truthy (sheet_url s) \<and> read_sheet e (the (sheet_url s)) = Inr [] \<longrightarrow>
      fetch_node e s = Inr (failure (cross_mark @ msg_no_data)))
   \<and> (truthy (sheet_url s) \<and> read_sheet e (the (sheet_url s)) = Inr rows \<and> rows \<noteq> []
        \<and> query_context s = Some qc \<and> time_range qc = Some tr \<and> tr \<noteq> []
        \<and> has_column date_column rows \<and> parse_time_range e tr = Inr rng
        \<and> to_records e (case rng of Some (a, b) \<Rightarrow> between e a b rows | None \<Rightarrow> rows) = []
      \<longrightarrow> fetch_node e s = Inr (failure (warn_in @ tr @ msg_nothing_in_range)))
   \<and> failure c = [Set_messages [AIMessage c], Set_raw_data None, Set_dataframe_summary None]
   \<and> merge s (failure c) =
        s\<lparr>messages := messages s @ [AIMessage c], raw_data := None, dataframe_summary := None\<rparr>
   \<and> raw_data (merge s (failure c)) = None
   \<and> dataframe_summary (merge s (failure c)) = None
   \<and> distinct [cross_mark @ msg_no_url, cross_mark @ msg_read_error @ m1,
                cross_mark @ msg_sheet_error @ m2, cross_mark @ msg_no_data,
                warn_in @ tr' @ msg_nothing_in_range]"
proof -
  have "raw_data (merge s (failure c)) = None"
    and "dataframe_summary (merge s (failure c)) = None"
    by (simp_all add: merge_failure)
  moreover have "failure c
      = [Set_messages [AIMessage c], Set_raw_data None, Set_dataframe_summary None]"
    by (simp add: failure_def)
  ultimately show ?thesis
    using fetch_no_url [of s e] fetch_not_found [of s e m] fetch_value_error [of s e m]
      fetch_other_error [of s e x m] fetch_empty [of s e]
      fetch_nothing_in_range [of s e rows qc tr rng]
      merge_failure [of s c] failure_texts_distinct [of m1 m2 tr']
    by blast
qed

lemma fetch_failure_kinds_examples:
  "fetch_node (sample_env (Inr one_row)) (first_turn ''analyse'' None)
     = Inr (failure (cross_mark @ msg_no_url))
   \<and> fetch_node (sample_env (Inl (FileNotFoundError ''credentials.json is missing'')))
        (first_turn ''analyse'' (Some ''sheet-id''))
     = Inr (failure (cross_mark @ ''credentials.json is missing''))
   \<and> fetch_node (sample_env (Inl (ValueError ''the file has no data'')))
        (first_turn ''analyse'' (Some ''sheet-id''))
     = Inr (failure (cross_mark @ msg_read_error @ ''the file has no data''))
   \<and> fetch_node (sample_env (Inl (OtherException ''HttpError 403'')))
        (first_turn ''analyse'' (Some ''sheet-id''))
     = Inr (failure (cross_mark @ msg_sheet_error @ ''HttpError 403''))
   \<and> fetch_node (sample_env (Inr [])) (first_turn ''analyse'' (Some ''sheet-id''))
     = Inr (failure (cross_mark @ msg_no_data))
   \<and> fetch_node (sample_env (Inr one_row)) asks_2024Q4
     = Inr (failure (warn_in @ ''2024Q4'' @ msg_nothing_in_range))"
proof -
  let ?s = "first_turn ''analyse'' (Some ''sheet-id'')"
  have u: "truthy (sheet_url ?s)" and v: "the (sheet_url ?s) = ''sheet-id''"
    by (simp_all add: first_turn_def)
  have 1: "fetch_node (sample_env (Inr one_row)) (first_turn ''analyse'' None)
     = Inr (failure (cross_mark @ msg_no_url))"
    using fetch_failure_kinds [where s = "first_turn ''analyse'' None"
        and e = "sample_env (Inr one_row)"]
    by (simp add: first_turn_def)
  have 2: "fetch_node (sample_env (Inl (FileNotFoundError ''credentials.json is missing''))) ?s
     = Inr (failure (cross_mark @ ''credentials.json is missing''))"
    using u fetch_failure_kinds [where s = ?s
        and e = "sample_env (Inl (FileNotFoundError ''credentials.json is missing''))"
        and m = "''credentials.json is missing''"]
    by (simp add: sample_env_def)
  have 3: "fetch_node (sample_env (Inl (ValueError ''the file has no data''))) ?s
     = Inr (failure (cross_mark @ msg_read_error @ ''the file has no data''))"
    using u fetch_failure_kinds [where s = ?s
        and e = "sample_env (Inl (ValueError ''the file has no data''))"
        and m = "''the file has no data''"]
    by (simp add: sample_env_def)
  have 4: "fetch_node (sample_env (Inl (OtherException ''HttpError 403''))) ?s
     = Inr (failure (cross_mark @ msg_sheet_error @ ''HttpError 403''))"
    using u fetch_failure_kinds [where s = ?s
        and e = "sample_env (Inl (OtherException ''HttpError 403''))"
        and m = "''HttpError 403''" and x = "OtherException ''HttpError 403''"]
    by (simp add: sample_env_def)
  have 5: "fetch_node (sample_env (Inr [])) ?s = Inr (failure (cross_mark @ msg_no_data))"
    using u fetch_failure_kinds [where s = ?s and e = "sample_env (Inr [])"]
    by (simp add: sample_env_def)
  let ?e = "sample_env (Inr one_row)"
  let ?qc = "default_query_context\<lparr>time_range := Some ''2024Q4''\<rparr>"
  have t: "truthy (sheet_url asks_2024Q4)"
    by (simp add: asks_2024Q4_fields)
  have r: "read_sheet ?e (the (sheet_url asks_2024Q4)) = Inr one_row"
    by (simp add: sample_env_def)
  have o: "one_row \<noteq> []"
    by (simp add: one_row_def)
  have q: "time_range ?qc = Some ''2024Q4''"
    by simp
  have c: "has_column date_column one_row"
    by (simp add: has_column_def one_row_def)
  have p: "parse_time_range ?e ''2024Q4'' = Inr (Some (753239, 753331))"
    by (simp add: parse_time_range_def sample_env_def quarter_starts_def quarter_ends_def)
  have z: "to_records ?e (case Some (753239, 753331) of
                            Some (a, b) \<Rightarrow> between ?e a b one_row
                          | None \<Rightarrow> one_row) = []"
    by (simp add: sample_env_def)
  have 6: "fetch_node ?e asks_2024Q4
     = Inr (failure (warn_in @ ''2024Q4'' @ msg_nothing_in_range))"
    by (rule fetch_nothing_in_range [OF t r o asks_2024Q4_fields(2) q _ c p z]) simp
  from 1 2 3 4 5 6 show ?thesis
    by blast
qed

text \<open>
  The message of the not-found branch is the exception's own text after the cross mark,
  so it differs from the five others as far as that text does: a reader raising
  \<^verbatim>\<open>FileNotFoundError\<close> with the very text of the empty-source message gives the dict of
  an empty source. No \<^verbatim>\<open>FileNotFoundError\<close> that \<^verbatim>\<open>tools/gsheet.py\<close> raises has such a text.
\<close>

lemma not_found_text_is_bare:
  "read_sheet (sample_env (Inl (FileNotFoundError msg_no_data))) ''sheet-id''
     = Inl (FileNotFoundError msg_no_data)
   \<and> read_sheet (sample_env (Inr [])) ''sheet-id'' = Inr []
   \<and> fetch_node (sample_env (Inl (FileNotFoundError msg_no_data)))
        (first_turn ''analyse'' (Some ''sheet-id''))
      = Inr [Set_messages [AIMessage (cross_mark @ msg_no_data)], Set_raw_data None,
             Set_dataframe_summary None]
   \<and> fetch_node (sample_env (Inr [])) (first_turn ''analyse'' (Some ''sheet-id''))
      = Inr [Set_messages [AIMessage (cross_mark @ msg_no_data)], Set_raw_data None,
             Set_dataframe_summary None]"
  by (simp add: fetch_node_def sample_env_def first_turn_def failure_def)

text \<open>
  What \<^verbatim>\<open>_parse_time_range\<close> raises is not among them. Its fourth pattern accepts any run
  of the ten numerals, \<open>cn_map\<close> has the ten single numerals only, and for any other run
  \<^verbatim>\<open>int\<close> raises.
\<close>

lemma parse_time_range_unmapped_numerals:
  assumes "match_quarter e tr = None" and "match_year e tr = None"
    and "match_month e tr = None" and "search_recent e tr = Some (Numerals num_str)"
    and "map_of cn_map num_str = None"
  shows "parse_time_range e tr =
     Inl (ValueError (''invalid literal for int() with base 10: '' @ [CHR 0x27] @ num_str
                      @ [CHR 0x27]))"
  using assms
  by (simp add: parse_time_range_def parse_from_year_def parse_from_month_def
      parse_from_recent_def month_count_def)

lemma asks_twelve_months_fields:
  "sheet_url asks_twelve_months = Some ''sheet-id''"
  "query_context asks_twelve_months
     = Some (default_query_context\<lparr>time_range := Some last_twelve_months\<rparr>)"
  by (simp_all add: asks_twelve_months_def first_turn_def)

lemma twelve_unmapped: "map_of cn_map numeral_twelve = None"
  by (simp add: cn_map_def numeral_twelve_def)

text \<open>
  C8 claims that for every input state the Fetch worker never raises, each failure
  sub-kind giving a message-only update with \<^verbatim>\<open>raw_data\<close> and \<^verbatim>\<open>dataframe_summary\<close> absent.
  The six branches are as claimed (above), but the worker does raise. For a sheet with
  the date column and the time range U+6700 U+8FD1 U+5341 U+4E8C U+500B U+6708 ("the last
  twelve months"), the first three patterns do not match, the fourth gives the group
  U+5341 U+4E8C, which is no key of \<open>cn_map\<close>, and the \<^verbatim>\<open>ValueError\<close> of \<^verbatim>\<open>int\<close> leaves
  \<^verbatim>\<open>fetch_node\<close>, the call being outside every \<^verbatim>\<open>try\<close>.
\<close>

theorem fetch_raises_on_twelve_months:
  "fetch_node (sample_env (Inr one_row)) asks_twelve_months =
     Inl (ValueError (''invalid literal for int() with base 10: '' @ [CHR 0x27]
                      @ numeral_twelve @ [CHR 0x27]))"
proof -
  let ?e = "sample_env (Inr one_row)"
  have p: "parse_time_range ?e last_twelve_months =
     Inl (ValueError (''invalid literal for int() with base 10: '' @ [CHR 0x27]
                      @ numeral_twelve @ [CHR 0x27]))"
    by (rule parse_time_range_unmapped_numerals)
      (simp_all add: sample_env_def last_twelve_months_def twelve_unmapped)
  have c: "has_column date_column one_row"
    by (simp add: has_column_def one_row_def)
  have n: "last_twelve_months \<noteq> []"
    by (simp add: last_twelve_months_def)
  have r: "read_sheet ?e (the (sheet_url asks_twelve_months)) = Inr one_row"
    by (simp add: sample_env_def)
  have o: "one_row \<noteq> []"
    by (simp add: one_row_def)
  show ?thesis
    by (rule fetch_time_range_error [OF _ r o asks_twelve_months_fields(2) _ n c p])
      (simp_all add: asks_twelve_months_fields)
qed

end
